theory Spec2Isabelle
  imports Complex_Main
begin

section \<open>JavaScript numbers\<close>

text \<open>
  The scroll container computes with JavaScript numbers. Values read from the DOM
  (\<open>clientWidth\<close>, \<open>scrollLeft\<close>, \<open>offsetLeft\<close>, pointer coordinates) and numbers
  handed in by callers are finite and are modelled as reals, without rounding. The
  code itself introduces non-finite values in two ways: the \<open>-Infinity\<close> sentinels of
  an idle drag session, and divisions whose divisor may be zero. Those values have type
  \<open>jsnum\<close>. Signed zeros are not modelled: the sign of an infinite quotient is the
  one a positive zero divisor gives, and no property below depends on it.
\<close>

datatype jsnum = Fin real | PosInf | NegInf | NaN

fun is_finite :: "jsnum \<Rightarrow> bool" where
  "is_finite (Fin r) = True"
| "is_finite PosInf = False"
| "is_finite NegInf = False"
| "is_finite NaN = False"

fun js_neg :: "jsnum \<Rightarrow> jsnum" where
  "js_neg (Fin a) = Fin (- a)"
| "js_neg PosInf = NegInf"
| "js_neg NegInf = PosInf"
| "js_neg NaN = NaN"

fun js_add :: "jsnum \<Rightarrow> jsnum \<Rightarrow> jsnum" where
  "js_add (Fin a) (Fin b) = Fin (a + b)"
| "js_add (Fin a) PosInf = PosInf"
| "js_add (Fin a) NegInf = NegInf"
| "js_add (Fin a) NaN = NaN"
| "js_add PosInf (Fin b) = PosInf"
| "js_add PosInf PosInf = PosInf"
| "js_add PosInf NegInf = NaN"
| "js_add PosInf NaN = NaN"
| "js_add NegInf (Fin b) = NegInf"
| "js_add NegInf PosInf = NaN"
| "js_add NegInf NegInf = NegInf"
| "js_add NegInf NaN = NaN"
| "js_add NaN b = NaN"

definition js_sub :: "jsnum \<Rightarrow> jsnum \<Rightarrow> jsnum" where
  "js_sub a b = js_add a (js_neg b)"

text \<open>The product of an infinity and a finite number: \<open>NaN\<close> at zero, else by sign.\<close>

definition inf_times :: "bool \<Rightarrow> real \<Rightarrow> jsnum" where
  "inf_times positive a =
     (if a = 0 then NaN else if (0 < a) = positive then PosInf else NegInf)"

fun js_mul :: "jsnum \<Rightarrow> jsnum \<Rightarrow> jsnum" where
  "js_mul (Fin a) (Fin b) = Fin (a * b)"
| "js_mul (Fin a) PosInf = inf_times True a"
| "js_mul (Fin a) NegInf = inf_times False a"
| "js_mul (Fin a) NaN = NaN"
| "js_mul PosInf (Fin b) = inf_times True b"
| "js_mul PosInf PosInf = PosInf"
| "js_mul PosInf NegInf = NegInf"
| "js_mul PosInf NaN = NaN"
| "js_mul NegInf (Fin b) = inf_times False b"
| "js_mul NegInf PosInf = NegInf"
| "js_mul NegInf NegInf = PosInf"
| "js_mul NegInf NaN = NaN"
| "js_mul NaN b = NaN"

text \<open>
  Division: a finite number over zero is an infinity (\<open>NaN\<close> for \<open>0 / 0\<close>), a finite
  number over an infinity is zero, an infinity over a finite number keeps or flips its
  sign, and an infinity over an infinity is \<open>NaN\<close>.
\<close>

definition inf_over :: "bool \<Rightarrow> real \<Rightarrow> jsnum" where
  "inf_over positive b = (if (0 \<le> b) = positive then PosInf else NegInf)"

fun js_div :: "jsnum \<Rightarrow> jsnum \<Rightarrow> jsnum" where
  "js_div (Fin a) (Fin b) =
     (if b = 0 then (if a = 0 then NaN else if 0 < a then PosInf else NegInf)
      else Fin (a / b))"
| "js_div (Fin a) PosInf = Fin 0"
| "js_div (Fin a) NegInf = Fin 0"
| "js_div (Fin a) NaN = NaN"
| "js_div PosInf (Fin b) = inf_over True b"
| "js_div PosInf PosInf = NaN"
| "js_div PosInf NegInf = NaN"
| "js_div PosInf NaN = NaN"
| "js_div NegInf (Fin b) = inf_over False b"
| "js_div NegInf PosInf = NaN"
| "js_div NegInf NegInf = NaN"
| "js_div NegInf NaN = NaN"
| "js_div NaN b = NaN"

text \<open>\<open>Math.max\<close> and \<open>Math.min\<close> of two arguments: \<open>NaN\<close> if either is \<open>NaN\<close>.\<close>

fun js_max :: "jsnum \<Rightarrow> jsnum \<Rightarrow> jsnum" where
  "js_max (Fin a) (Fin b) = Fin (max a b)"
| "js_max (Fin a) PosInf = PosInf"
| "js_max (Fin a) NegInf = Fin a"
| "js_max (Fin a) NaN = NaN"
| "js_max PosInf (Fin b) = PosInf"
| "js_max PosInf PosInf = PosInf"
| "js_max PosInf NegInf = PosInf"
| "js_max PosInf NaN = NaN"
| "js_max NegInf (Fin b) = Fin b"
| "js_max NegInf PosInf = PosInf"
| "js_max NegInf NegInf = NegInf"
| "js_max NegInf NaN = NaN"
| "js_max NaN b = NaN"

fun js_min :: "jsnum \<Rightarrow> jsnum \<Rightarrow> jsnum" where
  "js_min (Fin a) (Fin b) = Fin (min a b)"
| "js_min (Fin a) PosInf = Fin a"
| "js_min (Fin a) NegInf = NegInf"
| "js_min (Fin a) NaN = NaN"
| "js_min PosInf (Fin b) = Fin b"
| "js_min PosInf PosInf = PosInf"
| "js_min PosInf NegInf = NegInf"
| "js_min PosInf NaN = NaN"
| "js_min NegInf (Fin b) = NegInf"
| "js_min NegInf PosInf = NegInf"
| "js_min NegInf NegInf = NegInf"
| "js_min NegInf NaN = NaN"
| "js_min NaN b = NaN"

text \<open>
  \<open>a || b\<close> on finite numbers: the left operand unless it is falsy, that is, zero.
\<close>

definition js_or :: "real \<Rightarrow> real \<Rightarrow> real" where
  "js_or a b = (if a = 0 then b else a)"

section \<open>DOM data\<close>

text \<open>The layout metrics of an \<open>HTMLElement\<close> that the code reads.\<close>

record HTMLElement =
  offsetLeft :: real
  offsetTop :: real
  offsetWidth :: real
  offsetHeight :: real
  clientWidth :: real
  clientHeight :: real
  scrollWidth :: real
  scrollHeight :: real
  scrollLeft :: real
  scrollTop :: real

text \<open>
  \<open>DOMPoint\<close> and \<open>DOMRect\<close>. A point holds reals where the code stores DOM
  readings only, and \<open>jsnum\<close>s where it also stores \<open>-Infinity\<close>. The constructor
  of \<open>DOMRect\<close> takes \<open>x\<close>, \<open>y\<close>, \<open>width\<close>, \<open>height\<close>; its \<open>left\<close>, \<open>right\<close>,
  \<open>top\<close> and \<open>bottom\<close> are computed from them.
\<close>

record 'a DOMPoint =
  pt_x :: 'a
  pt_y :: 'a

record DOMRect =
  rect_x :: real
  rect_y :: real
  rect_width :: real
  rect_height :: real

definition new_DOMRect :: "real \<Rightarrow> real \<Rightarrow> real \<Rightarrow> real \<Rightarrow> DOMRect" where
  "new_DOMRect rx ry rw rh = \<lparr>rect_x = rx, rect_y = ry, rect_width = rw, rect_height = rh\<rparr>"

definition rect_left :: "DOMRect \<Rightarrow> real" where
  "rect_left r = min (rect_x r) (rect_x r + rect_width r)"

definition rect_right :: "DOMRect \<Rightarrow> real" where
  "rect_right r = max (rect_x r) (rect_x r + rect_width r)"

definition rect_top :: "DOMRect \<Rightarrow> real" where
  "rect_top r = min (rect_y r) (rect_y r + rect_height r)"

definition rect_bottom :: "DOMRect \<Rightarrow> real" where
  "rect_bottom r = max (rect_y r) (rect_y r + rect_height r)"

text \<open>
  The elements an event can hit, and the external components that can be given as
  adjustment sources, named by a number.
\<close>

datatype EventTarget = HBar | HBarThumb | VBar | VBarThumb | OtherTarget

record PointerEvent =
  target :: EventTarget
  clientX :: real
  clientY :: real
  offsetX :: real
  offsetY :: real
  pointerId :: nat

text \<open>
  What the browser's layout currently is: the scroll container's own element
  \<open>_dom_\<close>, the two bars and their thumbs, the elements of external components, and
  which of these elements have the element of the content container as their parent.
  Every handler reads the layout of the moment it runs in.
\<close>

record Layout =
  sc_dom :: HTMLElement
  hBar :: HTMLElement
  hBarThumb :: HTMLElement
  vBar :: HTMLElement
  vBarThumb :: HTMLElement
  component :: "nat \<Rightarrow> HTMLElement"
  content_children :: "nat set"

text \<open>
  The targets a size observer can have: the scroll container's own element or the
  element of a component. The nodes a mutation record lists: elements and other nodes.
\<close>

datatype ObservedElement = OwnElement | ElementOf nat

datatype DomNode = ElementNode nat | OtherNode

record MutationRecord =
  removedNodes :: "DomNode list"
  addedNodes :: "DomNode list"

text \<open>Values of the inline style properties the code writes.\<close>

datatype CssValue =
    EmptyString
  | NoneKeyword
  | Px jsnum
  | Percent jsnum
  | CalcPxMinusGap jsnum

text \<open>The fraction of the containing block that a percentage stands for.\<close>

fun css_fraction :: "CssValue \<Rightarrow> jsnum option" where
  "css_fraction (Percent p) = Some (js_div p (Fin 100))"
| "css_fraction v = None"

datatype AdjustmentValue = Number real | Component nat

record ScrollbarAdjustment =
  Offset :: AdjustmentValue
  ReduceSize :: AdjustmentValue

section \<open>The state of a scroll container\<close>

text \<open>
  Calls that leave the component: to the adjustment resize observer, to the scrolling
  element, to the event and to the thumb, and the child operations forwarded to the
  inner content container. They are logged in the order in which they are made.
\<close>

datatype ScrollBehavior = Smooth | Auto

record ScrollToOptions =
  opt_left :: "jsnum option"
  opt_top :: "jsnum option"
  opt_behavior :: "ScrollBehavior option"

datatype Position = AtIndex real | AtComponent nat

datatype ChildOp =
    Append "nat list"
  | AppendFragment nat
  | Insert Position "nat list"
  | InsertFragment Position nat
  | Remove "nat list"
  | Extract nat "nat list"
  | MoveTo nat "nat list"
  | MoveToAt nat Position "nat list"

datatype DomCall =
    AdjustmentObserve nat
  | AdjustmentUnobserve nat
  | ScrollTo ScrollToOptions
  | ScrollBy ScrollToOptions
  | PreventDefault
  | AddPointerMoveListener EventTarget
  | RemovePointerMoveListener EventTarget
  | SetPointerCapture EventTarget nat
  | ReleasePointerCapture EventTarget nat
  | ContentContainer ChildOp

text \<open>The callbacks the component hands to \<open>requestAnimationFrame\<close>.\<close>

datatype FrameCallback = SyncFrame | RafScroll

text \<open>
  The fields of the class, the classes of its element, the inline styles of the
  overlays and thumbs, the targets of the two resize observers, the queue of
  animation frame callbacks, the pending timers and the log of outgoing calls.
  \<open>hBarLeftOffset\<close>, \<open>hBarReduceWidth\<close>, \<open>vBarTopOffset\<close> and \<open>vBarReduceHeight\<close>
  have no initialiser; the constructor assigns them before anything reads them.
\<close>

record ScrollContainer =
  priv_horizontal :: bool
  priv_vertical :: bool
  hAdjustment :: "ScrollbarAdjustment option"
  vAdjustment :: "ScrollbarAdjustment option"
  hBarLeftOffset :: real
  hBarReduceWidth :: real
  vBarTopOffset :: real
  vBarReduceHeight :: real
  dragging :: bool
  dragStart :: "jsnum DOMPoint"
  dragStartElementPos :: "jsnum DOMPoint"
  draggingThumb :: "EventTarget option"
  draggingThumbRect :: DOMRect
  draggingBarRect :: DOMRect
  contScrollStartPos :: "real DOMPoint"
  contScrollHorizontal :: bool
  contScrollBackwards :: bool
  scrollPageLength :: jsnum
  isPointerDown :: bool
  lastScrollPos :: "real DOMPoint"
  onScrollEndTimeout :: bool
  dragCleanupTimeouts :: "nat list"
  classes :: "string set"
  hBarOverlay_display :: CssValue
  hBarOverlay_left :: CssValue
  hBarOverlay_width :: CssValue
  hBarThumb_width :: CssValue
  hBarThumb_left :: CssValue
  vBarOverlay_display :: CssValue
  vBarOverlay_top :: CssValue
  vBarOverlay_height :: CssValue
  vBarThumb_height :: CssValue
  vBarThumb_top :: CssValue
  resizeObserved :: "ObservedElement set"
  adjustmentObserved :: "nat set"
  animationFrames :: "FrameCallback list"
  calls :: "DomCall list"

definition addClass :: "string \<Rightarrow> ScrollContainer \<Rightarrow> ScrollContainer" where
  "addClass c s = s\<lparr>classes := insert c (classes s)\<rparr>"

definition removeClass :: "string \<Rightarrow> ScrollContainer \<Rightarrow> ScrollContainer" where
  "removeClass c s = s\<lparr>classes := classes s - {c}\<rparr>"

definition requestAnimationFrame :: "FrameCallback \<Rightarrow> ScrollContainer \<Rightarrow> ScrollContainer" where
  "requestAnimationFrame cb s = s\<lparr>animationFrames := animationFrames s @ [cb]\<rparr>"

definition domCall :: "DomCall \<Rightarrow> ScrollContainer \<Rightarrow> ScrollContainer" where
  "domCall c s = s\<lparr>calls := calls s @ [c]\<rparr>"

section \<open>Synchronising the scroll bars\<close>

text \<open>
  \<open>syncScrollBars(event?)\<close>: \<open>event\<close> says whether a scroll event was passed. The
  recomputation itself is the animation frame callback \<open>syncScrollBars_frame\<close>.
\<close>

definition syncScrollBars :: "bool \<Rightarrow> ScrollContainer \<Rightarrow> ScrollContainer" where
  "syncScrollBars event s =
     (let s1 = (if event then addClass ''scrolling'' s else s)
      in if dragging s1 then s1 else requestAnimationFrame SyncFrame s1)"

text \<open>
  The block \<open>if (this._horizontal) {...} else {...}\<close> of the callback. It returns the
  state with the locals \<open>hboWidth\<close> and \<open>hasHOff\<close>.
\<close>

definition sync_horizontal :: "Layout \<Rightarrow> ScrollContainer \<Rightarrow> ScrollContainer \<times> CssValue \<times> bool" where
  "sync_horizontal lay s =
     (if priv_horizontal s then
        (let w = clientWidth (sc_dom lay);
             sw = js_or (scrollWidth (sc_dom lay)) (- (1 / 1000000));
             hboWidth = Px (Fin (w - hBarLeftOffset s - hBarReduceWidth s));
             hasHOff = (w \<ge> sw)
         in (s\<lparr>hBarOverlay_display := (if w < sw then EmptyString else NoneKeyword),
               hBarOverlay_left := Px (Fin (hBarLeftOffset s + hBarReduceWidth s)),
               classes := classes (if hasHOff then addClass ''h-off'' s else removeClass ''h-off'' s),
               hBarThumb_width :=
                 (if w < sw then Percent (js_mul (js_div (Fin w) (Fin sw)) (Fin 100))
                  else Percent (Fin 100)),
               hBarThumb_left :=
                 Percent (js_mul (js_div (Fin (scrollLeft (sc_dom lay))) (Fin sw)) (Fin 100))\<rparr>,
             hboWidth, hasHOff))
      else (s\<lparr>hBarOverlay_display := NoneKeyword\<rparr>, EmptyString, False))"

text \<open>The block \<open>if (this._vertical) {...} else {...}\<close>, with \<open>vboHeight\<close> and \<open>hasVOff\<close>.\<close>

definition sync_vertical :: "Layout \<Rightarrow> ScrollContainer \<Rightarrow> ScrollContainer \<times> CssValue \<times> bool" where
  "sync_vertical lay s =
     (if priv_vertical s then
        (let h = clientHeight (sc_dom lay);
             sh = js_or (scrollHeight (sc_dom lay)) (- (1 / 1000000));
             vboHeight = Px (Fin (h - vBarTopOffset s - vBarReduceHeight s));
             hasVOff = (h \<ge> sh)
         in (s\<lparr>vBarOverlay_display := (if h < sh then EmptyString else NoneKeyword),
               vBarOverlay_top := Px (Fin (vBarTopOffset s + vBarReduceHeight s)),
               classes := classes (if hasVOff then addClass ''v-off'' s else removeClass ''v-off'' s),
               vBarThumb_height :=
                 (if h < sh then Percent (js_mul (js_div (Fin h) (Fin sh)) (Fin 100))
                  else Percent (Fin 100)),
               vBarThumb_top :=
                 Percent (js_mul (js_div (Fin (scrollTop (sc_dom lay))) (Fin sh)) (Fin 100))\<rparr>,
             vboHeight, hasVOff))
      else (s\<lparr>vBarOverlay_display := NoneKeyword\<rparr>, EmptyString, False))"

text \<open>The two closing statements of the callback, which size the overlays.\<close>

definition sync_overlay_width :: "Layout \<Rightarrow> CssValue \<Rightarrow> bool \<Rightarrow> ScrollContainer \<Rightarrow> ScrollContainer" where
  "sync_overlay_width lay hboWidth hasVOff s =
     (if priv_horizontal s then
        s\<lparr>hBarOverlay_width :=
            (if \<not> hasVOff then
               CalcPxMinusGap (Fin (clientWidth (sc_dom lay) - hBarLeftOffset s
                                     - hBarReduceWidth s - offsetWidth (vBar lay)))
             else hboWidth)\<rparr>
      else s)"

definition sync_overlay_height :: "Layout \<Rightarrow> CssValue \<Rightarrow> bool \<Rightarrow> ScrollContainer \<Rightarrow> ScrollContainer" where
  "sync_overlay_height lay vboHeight hasHOff s =
     (if priv_vertical s \<and> ''h-off'' \<notin> classes s then
        s\<lparr>vBarOverlay_height :=
            (if \<not> hasHOff then
               CalcPxMinusGap (Fin (clientHeight (sc_dom lay) - vBarTopOffset s
                                     - vBarReduceHeight s - offsetHeight (hBar lay)))
             else vboHeight)\<rparr>
      else s)"

definition syncScrollBars_frame :: "Layout \<Rightarrow> ScrollContainer \<Rightarrow> ScrollContainer" where
  "syncScrollBars_frame lay s =
     (case sync_horizontal lay s of (s1, hboWidth, hasHOff) \<Rightarrow>
      case sync_vertical lay s1 of (s2, vboHeight, hasVOff) \<Rightarrow>
        sync_overlay_height lay vboHeight hasHOff (sync_overlay_width lay hboWidth hasVOff s2))"

section \<open>Watching the content\<close>

text \<open>
  The callback of \<open>resizeObserver\<close>: if an axis is enabled, the first entry whose target
  is the container's own element, or an element whose parent is the element of the
  content container, makes it call \<open>syncScrollBars\<close> and leave the loop.
\<close>

fun parent_is_content :: "Layout \<Rightarrow> ObservedElement \<Rightarrow> bool" where
  "parent_is_content lay OwnElement = False"
| "parent_is_content lay (ElementOf e) = (e \<in> content_children lay)"

fun resizeObserver_entries :: "Layout \<Rightarrow> ObservedElement list \<Rightarrow> ScrollContainer \<Rightarrow> ScrollContainer" where
  "resizeObserver_entries lay [] s = s"
| "resizeObserver_entries lay (entry # entries) s =
     (if entry = OwnElement \<or> parent_is_content lay entry then syncScrollBars False s
      else resizeObserver_entries lay entries s)"

definition resizeObserver_callback :: "Layout \<Rightarrow> ObservedElement list \<Rightarrow> ScrollContainer \<Rightarrow> ScrollContainer" where
  "resizeObserver_callback lay entries s =
     (if priv_vertical s \<or> priv_horizontal s then resizeObserver_entries lay entries s else s)"

text \<open>
  The callback of \<open>mutationObserver\<close>, which watches the child list of the content
  container: for every record, the removed nodes that are elements leave the targets of
  \<open>resizeObserver\<close>, then the added ones join them.
\<close>

fun unobserve_removed :: "DomNode list \<Rightarrow> ScrollContainer \<Rightarrow> ScrollContainer" where
  "unobserve_removed [] s = s"
| "unobserve_removed (ElementNode e # nodes) s =
     unobserve_removed nodes (s\<lparr>resizeObserved := resizeObserved s - {ElementOf e}\<rparr>)"
| "unobserve_removed (OtherNode # nodes) s = unobserve_removed nodes s"

fun observe_added :: "DomNode list \<Rightarrow> ScrollContainer \<Rightarrow> ScrollContainer" where
  "observe_added [] s = s"
| "observe_added (ElementNode e # nodes) s =
     observe_added nodes (s\<lparr>resizeObserved := insert (ElementOf e) (resizeObserved s)\<rparr>)"
| "observe_added (OtherNode # nodes) s = observe_added nodes s"

fun mutationObserver_callback :: "MutationRecord list \<Rightarrow> ScrollContainer \<Rightarrow> ScrollContainer" where
  "mutationObserver_callback [] s = s"
| "mutationObserver_callback (rcd # records) s =
     mutationObserver_callback records
       (observe_added (addedNodes rcd) (unobserve_removed (removedNodes rcd) s))"

section \<open>Adjustments\<close>

definition unobserve :: "nat \<Rightarrow> ScrollContainer \<Rightarrow> ScrollContainer" where
  "unobserve e s =
     domCall (AdjustmentUnobserve e) (s\<lparr>adjustmentObserved := adjustmentObserved s - {e}\<rparr>)"

definition observe :: "nat \<Rightarrow> ScrollContainer \<Rightarrow> ScrollContainer" where
  "observe e s =
     domCall (AdjustmentObserve e) (s\<lparr>adjustmentObserved := insert e (adjustmentObserved s)\<rparr>)"

text \<open>
  \<open>horizontalAdjustment(scrollbarAdjustment?)\<close> and \<open>verticalAdjustment\<close>, statement
  by statement: the two guarded \<open>unobserve\<close> calls on the previous adjustment, the
  assignment of the new one (the default when none is passed), the two \<open>if\<close>/\<open>else\<close>
  blocks that store the offset and the size reduction, and the call to
  \<open>syncScrollBars\<close>. A component and its DOM element carry the same number.
\<close>

fun unobserve_source :: "AdjustmentValue \<Rightarrow> ScrollContainer \<Rightarrow> ScrollContainer" where
  "unobserve_source (Number n) s = s"
| "unobserve_source (Component c) s = unobserve c s"

fun unobserve_previous :: "ScrollbarAdjustment option \<Rightarrow> ScrollContainer \<Rightarrow> ScrollContainer" where
  "unobserve_previous None s = s"
| "unobserve_previous (Some a) s = unobserve_source (ReduceSize a) (unobserve_source (Offset a) s)"

fun adjustment_or_default :: "ScrollbarAdjustment option \<Rightarrow> ScrollbarAdjustment" where
  "adjustment_or_default None = \<lparr>Offset = Number 0, ReduceSize = Number 0\<rparr>"
| "adjustment_or_default (Some a) = a"

fun store_hBarLeftOffset :: "Layout \<Rightarrow> AdjustmentValue \<Rightarrow> ScrollContainer \<Rightarrow> ScrollContainer" where
  "store_hBarLeftOffset lay (Component c) s =
     (observe c s)\<lparr>hBarLeftOffset := offsetTop (component lay c)\<rparr>"
| "store_hBarLeftOffset lay (Number n) s = s\<lparr>hBarLeftOffset := n\<rparr>"

fun store_hBarReduceWidth :: "Layout \<Rightarrow> AdjustmentValue \<Rightarrow> ScrollContainer \<Rightarrow> ScrollContainer" where
  "store_hBarReduceWidth lay (Component c) s =
     (observe c s)\<lparr>hBarReduceWidth := offsetHeight (component lay c)\<rparr>"
| "store_hBarReduceWidth lay (Number n) s = s\<lparr>hBarReduceWidth := n\<rparr>"

definition horizontalAdjustment ::
  "Layout \<Rightarrow> ScrollbarAdjustment option \<Rightarrow> ScrollContainer \<Rightarrow> ScrollContainer" where
  "horizontalAdjustment lay scrollbarAdjustment s =
     (let adj = adjustment_or_default scrollbarAdjustment
      in syncScrollBars False
           (store_hBarReduceWidth lay (ReduceSize adj)
             (store_hBarLeftOffset lay (Offset adj)
               ((unobserve_previous (hAdjustment s) s)\<lparr>hAdjustment := Some adj\<rparr>))))"

fun store_vBarTopOffset :: "Layout \<Rightarrow> AdjustmentValue \<Rightarrow> ScrollContainer \<Rightarrow> ScrollContainer" where
  "store_vBarTopOffset lay (Component c) s =
     (observe c s)\<lparr>vBarTopOffset := offsetTop (component lay c)\<rparr>"
| "store_vBarTopOffset lay (Number n) s = s\<lparr>vBarTopOffset := n\<rparr>"

fun store_vBarReduceHeight :: "Layout \<Rightarrow> AdjustmentValue \<Rightarrow> ScrollContainer \<Rightarrow> ScrollContainer" where
  "store_vBarReduceHeight lay (Component c) s =
     (observe c s)\<lparr>vBarReduceHeight := offsetHeight (component lay c)\<rparr>"
| "store_vBarReduceHeight lay (Number n) s = s\<lparr>vBarReduceHeight := n\<rparr>"

definition verticalAdjustment ::
  "Layout \<Rightarrow> ScrollbarAdjustment option \<Rightarrow> ScrollContainer \<Rightarrow> ScrollContainer" where
  "verticalAdjustment lay scrollbarAdjustment s =
     (let adj = adjustment_or_default scrollbarAdjustment
      in syncScrollBars False
           (store_vBarReduceHeight lay (ReduceSize adj)
             (store_vBarTopOffset lay (Offset adj)
               ((unobserve_previous (vAdjustment s) s)\<lparr>vAdjustment := Some adj\<rparr>))))"

text \<open>
  The callback of \<open>adjustmentResizeObserver\<close>, for one entry and for the list of
  entries. Each of its four \<open>if\<close> statements compares the entry's target with the
  element of one adjustment source (the \<open>DOM\<close> of a number is \<open>undefined\<close>, which no
  target equals), refreshes one stored value and sets the local \<open>syncScrollBars\<close>.
  \<open>this.hAdjustment.Offset\<close> throws a \<open>TypeError\<close> while an adjustment is undefined.
\<close>

datatype JsError = TypeError

definition refresh_if :: "bool \<Rightarrow> (ScrollContainer \<Rightarrow> ScrollContainer) \<Rightarrow> ScrollContainer \<Rightarrow> ScrollContainer" where
  "refresh_if c f s = (if c then f s else s)"

definition adjustment_entry :: "Layout \<Rightarrow> nat \<Rightarrow> ScrollContainer \<Rightarrow> JsError + ScrollContainer" where
  "adjustment_entry lay ref s =
     (case hAdjustment s of
        None \<Rightarrow> Inl TypeError
      | Some ha \<Rightarrow>
         (case vAdjustment s of
            None \<Rightarrow> Inl TypeError
          | Some va \<Rightarrow>
             (let s4 =
                    refresh_if (Component ref = ReduceSize va)
                      (vBarReduceHeight_update (\<lambda>v. offsetHeight (component lay ref)))
                   (refresh_if (Component ref = Offset va)
                      (vBarTopOffset_update (\<lambda>v. offsetTop (component lay ref)))
                   (refresh_if (Component ref = ReduceSize ha)
                      (hBarReduceWidth_update (\<lambda>v. offsetWidth (component lay ref)))
                   (refresh_if (Component ref = Offset ha)
                      (hBarLeftOffset_update (\<lambda>v. offsetLeft (component lay ref))) s)));
                  syncScrollBars_flag =
                    (Component ref = Offset ha \<or> Component ref = ReduceSize ha
                     \<or> Component ref = Offset va \<or> Component ref = ReduceSize va)
              in Inr (if syncScrollBars_flag then syncScrollBars False s4 else s4))))"

fun adjustmentResizeObserver_callback ::
  "Layout \<Rightarrow> nat list \<Rightarrow> ScrollContainer \<Rightarrow> JsError + ScrollContainer" where
  "adjustmentResizeObserver_callback lay [] s = Inr s"
| "adjustmentResizeObserver_callback lay (ref # entries) s =
     (case adjustment_entry lay ref s of
        Inl err \<Rightarrow> Inl err
      | Inr s' \<Rightarrow> adjustmentResizeObserver_callback lay entries s')"

text \<open>
  The browser's part: when the element of a component changes size, each of the two
  observers that has the element among its targets calls back with one entry for it,
  \<open>resizeObserver\<close> first, since \<open>buildUI\<close> creates it first.
\<close>

definition element_resized :: "Layout \<Rightarrow> nat \<Rightarrow> ScrollContainer \<Rightarrow> JsError + ScrollContainer" where
  "element_resized lay e s =
     (let s1 = (if ElementOf e \<in> resizeObserved s
                then resizeObserver_callback lay [ElementOf e] s else s)
      in if e \<in> adjustmentObserved s1 then adjustmentResizeObserver_callback lay [e] s1
         else Inr s1)"

section \<open>Dragging a thumb\<close>

fun element_of :: "Layout \<Rightarrow> EventTarget \<Rightarrow> HTMLElement" where
  "element_of lay HBar = hBar lay"
| "element_of lay HBarThumb = hBarThumb lay"
| "element_of lay VBar = vBar lay"
| "element_of lay VBarThumb = vBarThumb lay"
| "element_of lay OtherTarget = sc_dom lay"

text \<open>The parent of a thumb is its bar (\<open>buildUI\<close>); only thumbs are asked for it.\<close>

fun parentElement :: "Layout \<Rightarrow> EventTarget \<Rightarrow> HTMLElement" where
  "parentElement lay HBarThumb = hBar lay"
| "parentElement lay VBarThumb = vBar lay"
| "parentElement lay t = sc_dom lay"

definition onDragThumbPointerDown :: "Layout \<Rightarrow> PointerEvent \<Rightarrow> ScrollContainer \<Rightarrow> ScrollContainer" where
  "onDragThumbPointerDown lay event s =
     (if target event = VBarThumb \<or> target event = HBarThumb then
        (let thumb = element_of lay (target event);
             bar = parentElement lay (target event)
         in addClass ''dragging''
             (domCall (SetPointerCapture (target event) (pointerId event))
               (domCall (AddPointerMoveListener (target event))
                 ((domCall PreventDefault s)
                    \<lparr>dragging := True,
                     contScrollHorizontal := (draggingThumb s = Some HBarThumb),
                     dragStart := \<lparr>pt_x = Fin (clientX event), pt_y = Fin (clientY event)\<rparr>,
                     dragStartElementPos :=
                       \<lparr>pt_x = Fin (scrollLeft (sc_dom lay)), pt_y = Fin (scrollTop (sc_dom lay))\<rparr>,
                     draggingThumb := Some (target event),
                     draggingThumbRect :=
                       \<lparr>rect_x = offsetLeft thumb, rect_y = offsetTop thumb,
                        rect_width = offsetWidth thumb, rect_height = offsetHeight thumb\<rparr>,
                     draggingBarRect :=
                       (draggingBarRect s)\<lparr>rect_width := offsetWidth bar,
                                            rect_height := offsetHeight bar\<rparr>\<rparr>))))
      else s)"

definition onDragThumbPointerMove :: "Layout \<Rightarrow> PointerEvent \<Rightarrow> ScrollContainer \<Rightarrow> ScrollContainer" where
  "onDragThumbPointerMove lay event s =
     (if draggingThumb s = Some HBarThumb then
        (let dx = js_sub (Fin (clientX event)) (pt_x (dragStart s));
             left0 = js_max (Fin 0) (js_add (Fin (rect_left (draggingThumbRect s))) dx);
             left1 = js_min left0 (Fin (rect_width (draggingBarRect s) - rect_width (draggingThumbRect s)));
             f = js_div (Fin (scrollWidth (sc_dom lay) - offsetWidth (sc_dom lay)))
                        (Fin (rect_width (draggingBarRect s) - rect_width (draggingThumbRect s)))
         in domCall (ScrollTo \<lparr>opt_left = Some (js_add (pt_x (dragStartElementPos s)) (js_mul dx f)),
                               opt_top = None, opt_behavior = None\<rparr>)
              (s\<lparr>hBarThumb_left := Px left1\<rparr>))
      else if draggingThumb s = Some VBarThumb then
        (let dy = js_sub (Fin (clientY event)) (pt_y (dragStart s));
             top0 = js_max (Fin 0) (js_add (Fin (rect_top (draggingThumbRect s))) dy);
             top1 = js_min top0 (Fin (rect_height (draggingBarRect s) - rect_height (draggingThumbRect s)));
             f = js_div (Fin (scrollHeight (sc_dom lay) - offsetHeight (sc_dom lay)))
                        (Fin (rect_height (draggingBarRect s) - rect_height (draggingThumbRect s)))
         in domCall (ScrollTo \<lparr>opt_left = None,
                               opt_top = Some (js_add (pt_y (dragStartElementPos s)) (js_mul dy f)),
                               opt_behavior = None\<rparr>)
              (s\<lparr>vBarThumb_top := Px top1\<rparr>))
      else s)"

text \<open>
  \<open>onDragThumbPointerUp\<close> sets a timer of one millisecond; \<open>dragCleanup\<close> is its
  callback, for the pointer of the event that set it.
\<close>

definition onDragThumbPointerUp :: "PointerEvent \<Rightarrow> ScrollContainer \<Rightarrow> ScrollContainer" where
  "onDragThumbPointerUp event s =
     (if dragging s then s\<lparr>dragCleanupTimeouts := dragCleanupTimeouts s @ [pointerId event]\<rparr> else s)"

definition dragCleanup :: "nat \<Rightarrow> ScrollContainer \<Rightarrow> JsError + ScrollContainer" where
  "dragCleanup pid s =
     (case draggingThumb s of
        None \<Rightarrow> Inl TypeError
      | Some t \<Rightarrow>
         Inr (removeClass ''dragging''
               ((domCall (ReleasePointerCapture t pid)
                  (domCall (RemovePointerMoveListener t) (s\<lparr>dragging := False\<rparr>)))
                  \<lparr>draggingThumb := None,
                   dragStart := \<lparr>pt_x = NegInf, pt_y = NegInf\<rparr>,
                   dragStartElementPos := \<lparr>pt_x = NegInf, pt_y = NegInf\<rparr>\<rparr>)))"

section \<open>Pressing on a scroll bar\<close>

definition onScrollBarPointerDown :: "Layout \<Rightarrow> PointerEvent \<Rightarrow> ScrollContainer \<Rightarrow> ScrollContainer" where
  "onScrollBarPointerDown lay event s =
     (let s0 = s\<lparr>contScrollStartPos := \<lparr>pt_x = offsetX event, pt_y = offsetY event\<rparr>\<rparr>
      in if target event = HBar then
           (let pageLength = js_div (Fin (scrollWidth (sc_dom lay) * offsetWidth (hBarThumb lay)))
                                    (Fin (offsetWidth (hBar lay)));
                scrollBy = (if offsetX event < offsetLeft (hBarThumb lay)
                            then js_neg pageLength else pageLength)
            in domCall (ScrollBy \<lparr>opt_left = Some scrollBy, opt_top = None,
                                  opt_behavior = Some Smooth\<rparr>)
                 ((domCall PreventDefault s0)
                    \<lparr>isPointerDown := True,
                     contScrollHorizontal := True,
                     contScrollBackwards := (offsetX event \<le> offsetLeft (hBarThumb lay)),
                     scrollPageLength := pageLength\<rparr>))
         else if target event = VBar then
           (let pageLength = js_div (Fin (scrollHeight (sc_dom lay) * offsetHeight (vBarThumb lay)))
                                    (Fin (offsetHeight (vBar lay)));
                scrollBy = (if offsetY event < offsetTop (vBarThumb lay)
                            then js_neg pageLength else pageLength)
            in domCall (ScrollBy \<lparr>opt_left = None, opt_top = Some scrollBy,
                                  opt_behavior = Some Smooth\<rparr>)
                 ((domCall PreventDefault s0)
                    \<lparr>isPointerDown := True,
                     contScrollHorizontal := False,
                     contScrollBackwards := (offsetY event \<le> offsetTop (vBarThumb lay)),
                     scrollPageLength := pageLength\<rparr>))
         else s0)"

definition onScrollBarPointerUp :: "ScrollContainer \<Rightarrow> ScrollContainer" where
  "onScrollBarPointerUp s = s\<lparr>isPointerDown := False\<rparr>"

definition rectContains :: "DOMRect \<Rightarrow> real DOMPoint \<Rightarrow> bool" where
  "rectContains rect point =
     (pt_x point \<ge> rect_left rect \<and> pt_y point \<ge> rect_top rect
      \<and> pt_x point \<le> rect_right rect \<and> pt_y point \<le> rect_bottom rect)"

text \<open>The rectangle that \<open>rafScroll\<close> builds for a thumb.\<close>

definition thumbRect_of :: "HTMLElement \<Rightarrow> DOMRect" where
  "thumbRect_of thumb =
     new_DOMRect (offsetLeft thumb) (offsetTop thumb)
       (offsetLeft thumb + offsetWidth thumb) (offsetTop thumb + offsetHeight thumb)"

text \<open>
  One run of the closure \<open>rafScroll\<close>: it either stops, or scrolls and hands itself to
  \<open>requestAnimationFrame\<close>.
\<close>

definition rafScroll :: "Layout \<Rightarrow> ScrollContainer \<Rightarrow> ScrollContainer" where
  "rafScroll lay s =
     (if \<not> isPointerDown s then removeClass ''scrolling'' s
      else
        (let thumbRect = (if contScrollHorizontal s then thumbRect_of (hBarThumb lay)
                          else thumbRect_of (vBarThumb lay))
         in if rectContains thumbRect (contScrollStartPos s) then removeClass ''scrolling'' s
            else
              (let contScrollDistance =
                     (if contScrollBackwards s then js_div (js_neg (scrollPageLength s)) (Fin 10)
                      else js_div (scrollPageLength s) (Fin 10));
                   s1 = domCall (ScrollBy
                          \<lparr>opt_left = Some (if contScrollHorizontal s then contScrollDistance else Fin 0),
                           opt_top = Some (if contScrollHorizontal s then Fin 0 else contScrollDistance),
                           opt_behavior = Some Auto\<rparr>) s
               in requestAnimationFrame RafScroll s1)))"

text \<open>
  \<open>onScrollEnd\<close> restarts a timer of 50 milliseconds; \<open>onScrollEnd_timeout\<close> is the
  timer's callback.
\<close>

definition onScrollEnd :: "Layout \<Rightarrow> ScrollContainer \<Rightarrow> ScrollContainer" where
  "onScrollEnd lay s =
     s\<lparr>lastScrollPos := \<lparr>pt_x = scrollLeft (sc_dom lay), pt_y = scrollTop (sc_dom lay)\<rparr>,
       onScrollEndTimeout := True\<rparr>"

definition onScrollEnd_timeout :: "Layout \<Rightarrow> ScrollContainer \<Rightarrow> ScrollContainer" where
  "onScrollEnd_timeout lay s =
     (let s0 = s\<lparr>onScrollEndTimeout := False\<rparr>
      in if pt_x (lastScrollPos s0) \<noteq> scrollLeft (sc_dom lay)
            \<or> pt_y (lastScrollPos s0) \<noteq> scrollTop (sc_dom lay)
         then removeClass ''scrolling'' s0
         else rafScroll lay s0)"

section \<open>Animation frames\<close>

text \<open>
  An animation frame runs the callbacks requested before it, in order; callbacks
  requested while it runs wait for the next frame.
\<close>

fun run_callback :: "Layout \<Rightarrow> FrameCallback \<Rightarrow> ScrollContainer \<Rightarrow> ScrollContainer" where
  "run_callback lay SyncFrame s = syncScrollBars_frame lay s"
| "run_callback lay RafScroll s = rafScroll lay s"

fun run_callbacks :: "Layout \<Rightarrow> FrameCallback list \<Rightarrow> ScrollContainer \<Rightarrow> ScrollContainer" where
  "run_callbacks lay [] s = s"
| "run_callbacks lay (cb # cbs) s = run_callbacks lay cbs (run_callback lay cb s)"

definition animationFrame :: "Layout \<Rightarrow> ScrollContainer \<Rightarrow> ScrollContainer" where
  "animationFrame lay s = run_callbacks lay (animationFrames s) (s\<lparr>animationFrames := []\<rparr>)"

section \<open>Child operations\<close>

text \<open>
  Components, fragments, target containers and result arrays are named by numbers.
  The inner content container belongs to the DOM library; a call to it is logged.
\<close>

definition append_sc :: "nat list \<Rightarrow> ScrollContainer \<Rightarrow> ScrollContainer" where
  "append_sc components s =
     syncScrollBars False (domCall (ContentContainer (Append components)) s)"

definition appendFragment :: "nat \<Rightarrow> ScrollContainer \<Rightarrow> ScrollContainer" where
  "appendFragment fragment s =
     syncScrollBars False (domCall (ContentContainer (AppendFragment fragment)) s)"

definition insert_sc :: "Position \<Rightarrow> nat list \<Rightarrow> ScrollContainer \<Rightarrow> ScrollContainer" where
  "insert_sc pos components s =
     syncScrollBars False (domCall (ContentContainer (Insert pos components)) s)"

text \<open>
  \<open>insertFragment\<close> calls \<open>this.insertFragment\<close>, that is, itself. \<open>None\<close> stands for
  a call that does not return.
\<close>

partial_function (option) insertFragment ::
  "Position \<Rightarrow> nat \<Rightarrow> ScrollContainer \<Rightarrow> ScrollContainer option" where
  "insertFragment pos fragment s =
     Option.bind (insertFragment pos fragment s) (\<lambda>s'. Some (syncScrollBars False s'))"

definition remove :: "nat list \<Rightarrow> ScrollContainer \<Rightarrow> ScrollContainer" where
  "remove components s =
     syncScrollBars False (domCall (ContentContainer (Remove components)) s)"

definition extract_sc :: "nat \<Rightarrow> nat list \<Rightarrow> ScrollContainer \<Rightarrow> ScrollContainer" where
  "extract_sc to components s =
     syncScrollBars False (domCall (ContentContainer (Extract to components)) s)"

definition moveTo :: "nat \<Rightarrow> nat list \<Rightarrow> ScrollContainer \<Rightarrow> ScrollContainer" where
  "moveTo target_container components s =
     syncScrollBars False (domCall (ContentContainer (MoveTo target_container components)) s)"

definition moveToAt :: "nat \<Rightarrow> Position \<Rightarrow> nat list \<Rightarrow> ScrollContainer \<Rightarrow> ScrollContainer" where
  "moveToAt target_container pos components s =
     syncScrollBars False (domCall (ContentContainer (MoveToAt target_container pos components)) s)"

section \<open>Construction\<close>

text \<open>
  The state after the field initialisers and \<open>buildUI\<close>, which lets \<open>resizeObserver\<close>
  observe the container's own element, and the constructor, which then sets both
  adjustments. Native scroll bars are off, as by default.
\<close>

definition initialized :: "bool \<Rightarrow> bool \<Rightarrow> ScrollContainer" where
  "initialized horizontal vertical =
     \<lparr>priv_horizontal = horizontal, priv_vertical = vertical,
      hAdjustment = None, vAdjustment = None,
      hBarLeftOffset = 0, hBarReduceWidth = 0, vBarTopOffset = 0, vBarReduceHeight = 0,
      dragging = False,
      dragStart = \<lparr>pt_x = NegInf, pt_y = NegInf\<rparr>,
      dragStartElementPos = \<lparr>pt_x = NegInf, pt_y = NegInf\<rparr>,
      draggingThumb = None,
      draggingThumbRect = new_DOMRect 0 0 0 0,
      draggingBarRect = new_DOMRect 0 0 0 0,
      contScrollStartPos = \<lparr>pt_x = 0, pt_y = 0\<rparr>,
      contScrollHorizontal = False, contScrollBackwards = False,
      scrollPageLength = Fin 0, isPointerDown = False,
      lastScrollPos = \<lparr>pt_x = 0, pt_y = 0\<rparr>,
      onScrollEndTimeout = False, dragCleanupTimeouts = [],
      classes = (if horizontal then {''horizontal''} else {})
                \<union> (if vertical then {''vertical''} else {}),
      hBarOverlay_display = EmptyString, hBarOverlay_left = EmptyString,
      hBarOverlay_width = EmptyString, hBarThumb_width = EmptyString,
      hBarThumb_left = EmptyString,
      vBarOverlay_display = EmptyString, vBarOverlay_top = EmptyString,
      vBarOverlay_height = EmptyString, vBarThumb_height = EmptyString,
      vBarThumb_top = EmptyString,
      resizeObserved = {OwnElement},
      adjustmentObserved = {}, animationFrames = [], calls = []\<rparr>"

definition new_ScrollContainer ::
  "Layout \<Rightarrow> bool \<Rightarrow> bool \<Rightarrow> ScrollbarAdjustment option \<Rightarrow> ScrollbarAdjustment option
   \<Rightarrow> ScrollContainer" where
  "new_ScrollContainer lay horizontal vertical hAdj vAdj =
     verticalAdjustment lay vAdj (horizontalAdjustment lay hAdj (initialized horizontal vertical))"

section \<open>Reading the result of a synchronisation\<close>

text \<open>
  A track is visible unless its overlay has \<open>display: none\<close>. A thumb's size and
  position are percentages of the track; they are finite when the number is.
\<close>

definition track_visible :: "CssValue \<Rightarrow> bool" where
  "track_visible display = (display \<noteq> NoneKeyword)"

fun finite_percentage :: "CssValue \<Rightarrow> bool" where
  "finite_percentage (Percent p) = is_finite p"
| "finite_percentage v = False"

text \<open>The scroll extent the callback divides by: \<open>scrollWidth || -0.000001\<close>.\<close>

definition effective_extent :: "real \<Rightarrow> real" where
  "effective_extent e = js_or e (- (1 / 1000000))"

text \<open>The elements an adjustment is derived from, offset first.\<close>

fun source_elements :: "AdjustmentValue \<Rightarrow> nat list" where
  "source_elements (Number n) = []"
| "source_elements (Component c) = [c]"

fun adjustment_sources :: "ScrollbarAdjustment option \<Rightarrow> nat list" where
  "adjustment_sources None = []"
| "adjustment_sources (Some a) = source_elements (Offset a) @ source_elements (ReduceSize a)"

text \<open>
  Whether \<open>resizeObserver\<close> answers a resize of an element with a call of
  \<open>syncScrollBars\<close>: the element is among its targets, an axis is enabled and the
  element is a child of the content container's element.
\<close>

definition content_sync :: "Layout \<Rightarrow> nat \<Rightarrow> ScrollContainer \<Rightarrow> bool" where
  "content_sync lay e s =
     (ElementOf e \<in> resizeObserved s \<and> (priv_vertical s \<or> priv_horizontal s)
      \<and> e \<in> content_children lay)"

text \<open>
  The rectangle a thumb occupies in the coordinates of its bar, which are also those of
  a press on the bar, and the thumb of the axis of the current press.
\<close>

definition thumb_rectangle :: "HTMLElement \<Rightarrow> DOMRect" where
  "thumb_rectangle thumb =
     new_DOMRect (offsetLeft thumb) (offsetTop thumb) (offsetWidth thumb) (offsetHeight thumb)"

definition pressed_thumb :: "Layout \<Rightarrow> ScrollContainer \<Rightarrow> HTMLElement" where
  "pressed_thumb lay s = (if contScrollHorizontal s then hBarThumb lay else vBarThumb lay)"

section \<open>Example layouts and states\<close>

text \<open>An element without border or overflow, and the element of a scroll container.\<close>

definition box :: "real \<Rightarrow> real \<Rightarrow> real \<Rightarrow> real \<Rightarrow> HTMLElement" where
  "box l t w h =
     \<lparr>offsetLeft = l, offsetTop = t, offsetWidth = w, offsetHeight = h,
      clientWidth = w, clientHeight = h, scrollWidth = w, scrollHeight = h,
      scrollLeft = 0, scrollTop = 0\<rparr>"

definition scroller :: "real \<Rightarrow> real \<Rightarrow> real \<Rightarrow> real \<Rightarrow> HTMLElement" where
  "scroller client border scroll pos =
     \<lparr>offsetLeft = 0, offsetTop = 0,
      offsetWidth = client + 2 * border, offsetHeight = client + 2 * border,
      clientWidth = client, clientHeight = client,
      scrollWidth = scroll, scrollHeight = scroll,
      scrollLeft = pos, scrollTop = pos\<rparr>"

text \<open>
  A container of 100 by 100 pixels over a content of 400 by 400, scrolled to 150 on
  both axes. The thumbs are a quarter of their tracks; their offsets are the rounded
  37.5. Every external component is a toolbar at (10, 20) of 30 by 40 pixels, outside
  the content container.
\<close>

definition example_layout :: Layout where
  "example_layout =
     \<lparr>sc_dom = scroller 100 0 400 150,
      hBar = box 0 0 100 9, hBarThumb = box 38 0 25 9,
      vBar = box 0 0 9 100, vBarThumb = box 0 38 9 25,
      component = (\<lambda>c. box 10 20 30 40), content_children = {}\<rparr>"

definition example_container :: ScrollContainer where
  "example_container = new_ScrollContainer example_layout True True None None"

text \<open>The same container when its content has shrunk to the container's height.\<close>

definition shrunk_layout :: Layout where
  "shrunk_layout =
     example_layout\<lparr>sc_dom := (sc_dom example_layout)\<lparr>scrollHeight := 100, scrollTop := 0\<rparr>\<rparr>"

text \<open>A container whose content fits exactly, and one without any extent.\<close>

definition fitting_layout :: Layout where
  "fitting_layout = example_layout\<lparr>sc_dom := scroller 200 0 200 0\<rparr>"

definition empty_layout :: Layout where
  "empty_layout = example_layout\<lparr>sc_dom := scroller 0 0 0 0\<rparr>"

text \<open>A press on the horizontal thumb, and the container once that drag has begun.\<close>

definition thumb_press :: PointerEvent where
  "thumb_press =
     \<lparr>target = HBarThumb, clientX = 50, clientY = 95, offsetX = 12, offsetY = 4, pointerId = 1\<rparr>"

definition example_dragging :: ScrollContainer where
  "example_dragging =
     onDragThumbPointerDown example_layout thumb_press
       (animationFrame example_layout example_container)"

text \<open>
  Adjustments derived from components: the toolbar is component 1. First the horizontal
  adjustment is derived from it, then the vertical one too; either can then be replaced
  by one whose offset is derived from component 2.
\<close>

definition toolbar_adjustment :: ScrollbarAdjustment where
  "toolbar_adjustment = \<lparr>Offset = Component 1, ReduceSize = Component 1\<rparr>"

definition toolbar_adjusted :: ScrollContainer where
  "toolbar_adjusted = horizontalAdjustment example_layout (Some toolbar_adjustment) example_container"

definition both_adjusted :: ScrollContainer where
  "both_adjusted = verticalAdjustment example_layout (Some toolbar_adjustment) toolbar_adjusted"

definition sidebar_adjustment :: ScrollbarAdjustment where
  "sidebar_adjustment = \<lparr>Offset = Component 2, ReduceSize = Number 5\<rparr>"

text \<open>
  The use the class describes: components 1 and 2 are appended to the scroll container,
  so that they are children of the content container, and the mutation observer is told.
  The horizontal adjustment is derived from component 1 and then replaced by one
  derived from component 2; \<open>replaced_dragging\<close> is that state once a thumb is dragged.
\<close>

definition children_layout :: Layout where
  "children_layout = example_layout\<lparr>content_children := {1, 2}\<rparr>"

definition with_children :: ScrollContainer where
  "with_children =
     mutationObserver_callback
       [\<lparr>removedNodes = [], addedNodes = [ElementNode 1, ElementNode 2]\<rparr>]
       (append_sc [1, 2] example_container)"

definition replaced_in_content :: ScrollContainer where
  "replaced_in_content =
     horizontalAdjustment children_layout (Some sidebar_adjustment)
       (horizontalAdjustment children_layout (Some toolbar_adjustment) with_children)"

definition replaced_dragging :: ScrollContainer where
  "replaced_dragging = onDragThumbPointerDown children_layout thumb_press replaced_in_content"

text \<open>
  Drags of a thumb. In \<open>aligned_layout\<close> the container is scrolled to 152, which puts the
  thumbs at exactly 38 of their tracks of 100; the pointer then moves by 37, which
  takes the thumb to the end of its track. In \<open>bordered_layout\<close> the container has a border
  of 5 pixels and is not scrolled; the pointer moves by 75.
\<close>

definition aligned_layout :: Layout where
  "aligned_layout = example_layout\<lparr>sc_dom := scroller 100 0 400 152\<rparr>"

definition aligned_dragging :: ScrollContainer where
  "aligned_dragging =
     onDragThumbPointerDown aligned_layout thumb_press
       (animationFrame aligned_layout example_container)"

definition bordered_layout :: Layout where
  "bordered_layout =
     example_layout\<lparr>sc_dom := scroller 100 5 400 0,
                     hBarThumb := box 0 0 25 9, vBarThumb := box 0 0 9 25\<rparr>"

definition bordered_dragging :: ScrollContainer where
  "bordered_dragging =
     onDragThumbPointerDown bordered_layout thumb_press
       (animationFrame bordered_layout example_container)"

text \<open>
  Presses on the horizontal bar. In \<open>edge_layout\<close> the container is scrolled to 153.6,
  so that the thumb begins at 38.4, which \<open>offsetLeft\<close> reports as 38; \<open>edge_press\<close>
  is a press on the bar at 38, just before the thumb. In \<open>scrolled_layout\<close> the page
  scroll that follows it has moved the thumb on (to 63.4). In \<open>hover_layout\<close> the bar is
  hovered, which by the style sheet moves the thumb up by one pixel and makes it two
  pixels higher; \<open>border_press\<close> is then a press on the lower border of the bar, right
  of the thumb, and \<open>covering_layout\<close> is the layout once the thumb has reached that
  point.
\<close>

definition edge_press :: PointerEvent where
  "edge_press =
     \<lparr>target = HBar, clientX = 38, clientY = 95, offsetX = 38, offsetY = 4, pointerId = 1\<rparr>"

definition edge_layout :: Layout where
  "edge_layout = example_layout\<lparr>sc_dom := scroller 100 0 400 (768 / 5)\<rparr>"

definition scrolled_layout :: Layout where
  "scrolled_layout =
     example_layout\<lparr>sc_dom := scroller 100 0 400 (1268 / 5), hBarThumb := box 63 0 25 9\<rparr>"

definition hover_layout :: Layout where
  "hover_layout = example_layout\<lparr>hBar := box 0 0 100 12, hBarThumb := box 38 (- 1) 25 12\<rparr>"

definition border_press :: PointerEvent where
  "border_press =
     \<lparr>target = HBar, clientX = 70, clientY = 99, offsetX = 70, offsetY = 21 / 2, pointerId = 1\<rparr>"

definition covering_layout :: Layout where
  "covering_layout =
     hover_layout\<lparr>sc_dom := scroller 100 0 400 240, hBarThumb := box 60 (- 1) 25 12\<rparr>"

definition edge_pressed :: ScrollContainer where
  "edge_pressed =
     onScrollBarPointerDown edge_layout edge_press
       (animationFrame edge_layout example_container)"

definition border_pressed :: ScrollContainer where
  "border_pressed =
     onScrollBarPointerDown hover_layout border_press
       (animationFrame hover_layout example_container)"

text \<open>A press on the bar of \<open>example_layout\<close> at 80, right of the thumb, which ends at 63.\<close>

definition far_press :: PointerEvent where
  "far_press =
     \<lparr>target = HBar, clientX = 80, clientY = 95, offsetX = 80, offsetY = 4, pointerId = 1\<rparr>"

definition far_pressed :: ScrollContainer where
  "far_pressed =
     onScrollBarPointerDown example_layout far_press
       (animationFrame example_layout example_container)"

section \<open>Properties of the synchronisation\<close>

lemma effective_extent_nonzero: "effective_extent e \<noteq> 0"
  by (simp add: effective_extent_def js_or_def)

lemma less_effective_extent: "0 \<le> c \<Longrightarrow> (c < effective_extent e) = (c < e)"
  by (auto simp: effective_extent_def js_or_def)

lemma percent_of_ratio:
  "js_mul (js_div (Fin a) (Fin (effective_extent e))) (Fin 100) = Fin (a / effective_extent e * 100)"
  using effective_extent_nonzero [of e] by simp

lemma sync_horizontal_on:
  "priv_horizontal s \<Longrightarrow> sync_horizontal lay s =
     (s\<lparr>hBarOverlay_display :=
          (if clientWidth (sc_dom lay) < effective_extent (scrollWidth (sc_dom lay))
           then EmptyString else NoneKeyword),
       hBarOverlay_left := Px (Fin (hBarLeftOffset s + hBarReduceWidth s)),
       classes := (if effective_extent (scrollWidth (sc_dom lay)) \<le> clientWidth (sc_dom lay)
                   then insert ''h-off'' (classes s) else classes s - {''h-off''}),
       hBarThumb_width :=
          (if clientWidth (sc_dom lay) < effective_extent (scrollWidth (sc_dom lay))
           then Percent (Fin (clientWidth (sc_dom lay) / effective_extent (scrollWidth (sc_dom lay)) * 100))
           else Percent (Fin 100)),
       hBarThumb_left :=
          Percent (Fin (scrollLeft (sc_dom lay) / effective_extent (scrollWidth (sc_dom lay)) * 100))\<rparr>,
      Px (Fin (clientWidth (sc_dom lay) - hBarLeftOffset s - hBarReduceWidth s)),
      effective_extent (scrollWidth (sc_dom lay)) \<le> clientWidth (sc_dom lay))"
  unfolding sync_horizontal_def Let_def effective_extent_def [symmetric] percent_of_ratio
  by (simp add: addClass_def removeClass_def)

lemma sync_horizontal_off:
  "\<not> priv_horizontal s \<Longrightarrow>
     sync_horizontal lay s = (s\<lparr>hBarOverlay_display := NoneKeyword\<rparr>, EmptyString, False)"
  by (simp add: sync_horizontal_def)

lemma sync_vertical_on:
  "priv_vertical s \<Longrightarrow> sync_vertical lay s =
     (s\<lparr>vBarOverlay_display :=
          (if clientHeight (sc_dom lay) < effective_extent (scrollHeight (sc_dom lay))
           then EmptyString else NoneKeyword),
       vBarOverlay_top := Px (Fin (vBarTopOffset s + vBarReduceHeight s)),
       classes := (if effective_extent (scrollHeight (sc_dom lay)) \<le> clientHeight (sc_dom lay)
                   then insert ''v-off'' (classes s) else classes s - {''v-off''}),
       vBarThumb_height :=
          (if clientHeight (sc_dom lay) < effective_extent (scrollHeight (sc_dom lay))
           then Percent (Fin (clientHeight (sc_dom lay) / effective_extent (scrollHeight (sc_dom lay)) * 100))
           else Percent (Fin 100)),
       vBarThumb_top :=
          Percent (Fin (scrollTop (sc_dom lay) / effective_extent (scrollHeight (sc_dom lay)) * 100))\<rparr>,
      Px (Fin (clientHeight (sc_dom lay) - vBarTopOffset s - vBarReduceHeight s)),
      effective_extent (scrollHeight (sc_dom lay)) \<le> clientHeight (sc_dom lay))"
  unfolding sync_vertical_def Let_def effective_extent_def [symmetric] percent_of_ratio
  by (simp add: addClass_def removeClass_def)

lemma sync_vertical_off:
  "\<not> priv_vertical s \<Longrightarrow>
     sync_vertical lay s = (s\<lparr>vBarOverlay_display := NoneKeyword\<rparr>, EmptyString, False)"
  by (simp add: sync_vertical_def)


lemma frame_horizontal_fields:
  assumes "priv_horizontal s"
  shows "hBarOverlay_display (syncScrollBars_frame lay s) =
           (if clientWidth (sc_dom lay) < effective_extent (scrollWidth (sc_dom lay))
            then EmptyString else NoneKeyword)"
    and "hBarThumb_width (syncScrollBars_frame lay s) =
           (if clientWidth (sc_dom lay) < effective_extent (scrollWidth (sc_dom lay))
            then Percent (Fin (clientWidth (sc_dom lay) / effective_extent (scrollWidth (sc_dom lay)) * 100))
            else Percent (Fin 100))"
    and "hBarThumb_left (syncScrollBars_frame lay s) =
           Percent (Fin (scrollLeft (sc_dom lay) / effective_extent (scrollWidth (sc_dom lay)) * 100))"
    and "(''h-off'' \<in> classes (syncScrollBars_frame lay s)) =
           (effective_extent (scrollWidth (sc_dom lay)) \<le> clientWidth (sc_dom lay))"
  using assms
  by (cases "priv_vertical s";
      simp add: syncScrollBars_frame_def sync_horizontal_on sync_vertical_on sync_vertical_off
        sync_overlay_width_def sync_overlay_height_def)+

lemma frame_vertical_fields:
  assumes "priv_vertical s"
  shows "vBarOverlay_display (syncScrollBars_frame lay s) =
           (if clientHeight (sc_dom lay) < effective_extent (scrollHeight (sc_dom lay))
            then EmptyString else NoneKeyword)"
    and "vBarThumb_height (syncScrollBars_frame lay s) =
           (if clientHeight (sc_dom lay) < effective_extent (scrollHeight (sc_dom lay))
            then Percent (Fin (clientHeight (sc_dom lay) / effective_extent (scrollHeight (sc_dom lay)) * 100))
            else Percent (Fin 100))"
    and "vBarThumb_top (syncScrollBars_frame lay s) =
           Percent (Fin (scrollTop (sc_dom lay) / effective_extent (scrollHeight (sc_dom lay)) * 100))"
    and "(''v-off'' \<in> classes (syncScrollBars_frame lay s)) =
           (effective_extent (scrollHeight (sc_dom lay)) \<le> clientHeight (sc_dom lay))"
  using assms
  by (cases "priv_horizontal s";
      simp add: syncScrollBars_frame_def sync_horizontal_on sync_horizontal_off sync_vertical_on
        sync_overlay_width_def sync_overlay_height_def)+


lemma frame_keeps_session:
  "calls (syncScrollBars_frame lay s) = calls s
   \<and> animationFrames (syncScrollBars_frame lay s) = animationFrames s
   \<and> isPointerDown (syncScrollBars_frame lay s) = isPointerDown s
   \<and> contScrollStartPos (syncScrollBars_frame lay s) = contScrollStartPos s
   \<and> contScrollHorizontal (syncScrollBars_frame lay s) = contScrollHorizontal s
   \<and> contScrollBackwards (syncScrollBars_frame lay s) = contScrollBackwards s
   \<and> scrollPageLength (syncScrollBars_frame lay s) = scrollPageLength s"
  by (cases "priv_horizontal s"; cases "priv_vertical s";
      simp add: syncScrollBars_frame_def sync_horizontal_on sync_horizontal_off sync_vertical_on
        sync_vertical_off sync_overlay_width_def sync_overlay_height_def)

lemma new_ScrollContainer_default:
  "new_ScrollContainer lay h v None None =
     (initialized h v)\<lparr>hAdjustment := Some \<lparr>Offset = Number 0, ReduceSize = Number 0\<rparr>,
                        vAdjustment := Some \<lparr>Offset = Number 0, ReduceSize = Number 0\<rparr>,
                        animationFrames := [SyncFrame, SyncFrame]\<rparr>"
  by (simp add: new_ScrollContainer_def horizontalAdjustment_def verticalAdjustment_def
      initialized_def syncScrollBars_def requestAnimationFrame_def Let_def)

lemma example_container_flags:
  "priv_horizontal example_container" "priv_vertical example_container"
  "\<not> dragging example_container"
  by (simp_all add: example_container_def new_ScrollContainer_default initialized_def)

lemma example_layout_dom:
  "sc_dom example_layout = scroller 100 0 400 150"
  by (simp add: example_layout_def)

lemma frame_keeps_flags:
  "priv_horizontal (syncScrollBars_frame lay s) = priv_horizontal s
   \<and> priv_vertical (syncScrollBars_frame lay s) = priv_vertical s
   \<and> dragging (syncScrollBars_frame lay s) = dragging s
   \<and> draggingThumb (syncScrollBars_frame lay s) = draggingThumb s"
  by (cases "priv_horizontal s"; cases "priv_vertical s";
      simp add: syncScrollBars_frame_def sync_horizontal_on sync_horizontal_off sync_vertical_on
        sync_vertical_off sync_overlay_width_def sync_overlay_height_def)

lemma animationFrame_queue:
  "animationFrames s = cbs \<Longrightarrow>
     animationFrame lay s = run_callbacks lay cbs (s\<lparr>animationFrames := []\<rparr>)"
  by (simp add: animationFrame_def)

lemma example_synced:
  "animationFrame example_layout example_container =
     syncScrollBars_frame example_layout
       (syncScrollBars_frame example_layout (example_container\<lparr>animationFrames := []\<rparr>))"
  by (simp add: animationFrame_def example_container_def new_ScrollContainer_default)

lemma example_synced_fields:
  "priv_horizontal (animationFrame example_layout example_container)"
  "priv_vertical (animationFrame example_layout example_container)"
  "animationFrames (animationFrame example_layout example_container) = []"
  "vBarOverlay_display (animationFrame example_layout example_container) = EmptyString"
  "hBarOverlay_display (animationFrame example_layout example_container) = EmptyString"
  by (simp_all add: example_synced frame_keeps_flags frame_keeps_session example_container_flags
      frame_vertical_fields frame_horizontal_fields example_layout_dom scroller_def
      effective_extent_def js_or_def)

lemma onDragThumbPointerDown_thumb:
  assumes "target event = HBarThumb \<or> target event = VBarThumb"
  shows "dragging (onDragThumbPointerDown lay event s)"
    and "draggingThumb (onDragThumbPointerDown lay event s) = Some (target event)"
    and "priv_horizontal (onDragThumbPointerDown lay event s) = priv_horizontal s"
    and "priv_vertical (onDragThumbPointerDown lay event s) = priv_vertical s"
    and "animationFrames (onDragThumbPointerDown lay event s) = animationFrames s"
    and "vBarOverlay_display (onDragThumbPointerDown lay event s) = vBarOverlay_display s"
    and "hBarOverlay_display (onDragThumbPointerDown lay event s) = hBarOverlay_display s"
  using assms
  by (auto simp: onDragThumbPointerDown_def Let_def addClass_def domCall_def)

lemma thumb_press_target: "target thumb_press = HBarThumb"
  by (simp add: thumb_press_def)

lemma example_dragging_flags:
  "dragging example_dragging" "priv_vertical example_dragging"
  "draggingThumb example_dragging = Some HBarThumb"
  "animationFrames example_dragging = []"
  "vBarOverlay_display example_dragging = EmptyString"
  by (simp_all add: example_dragging_def onDragThumbPointerDown_thumb thumb_press_target
      example_synced_fields)

text \<open>
  C1. After a synchronisation pass, for every enabled axis (and a client extent that is
  not negative, as the DOM's are), the track is visible exactly when the client extent
  is less than the scroll extent; the thumb's size is the fraction client extent over
  scroll extent of the track when the content overflows, and the whole track otherwise.
\<close>

theorem sync_track_and_thumb_size:
  assumes "0 \<le> clientWidth (sc_dom lay)" and "0 \<le> clientHeight (sc_dom lay)"
  shows "(priv_horizontal s \<longrightarrow>
            track_visible (hBarOverlay_display (syncScrollBars_frame lay s))
              = (clientWidth (sc_dom lay) < scrollWidth (sc_dom lay))
          \<and> css_fraction (hBarThumb_width (syncScrollBars_frame lay s))
              = Some (Fin (if clientWidth (sc_dom lay) < scrollWidth (sc_dom lay)
                           then clientWidth (sc_dom lay) / scrollWidth (sc_dom lay) else 1)))
       \<and> (priv_vertical s \<longrightarrow>
            track_visible (vBarOverlay_display (syncScrollBars_frame lay s))
              = (clientHeight (sc_dom lay) < scrollHeight (sc_dom lay))
          \<and> css_fraction (vBarThumb_height (syncScrollBars_frame lay s))
              = Some (Fin (if clientHeight (sc_dom lay) < scrollHeight (sc_dom lay)
                           then clientHeight (sc_dom lay) / scrollHeight (sc_dom lay) else 1)))"
proof -
  have e: "\<And>c e. 0 \<le> c \<Longrightarrow> c < e \<Longrightarrow> effective_extent e = e"
    by (auto simp: effective_extent_def js_or_def)
  show ?thesis
    using assms
    by (auto simp: frame_horizontal_fields frame_vertical_fields less_effective_extent
        track_visible_def e)
qed

theorem sync_track_and_thumb_size_witness:
  "track_visible (hBarOverlay_display (syncScrollBars_frame example_layout example_container))
   \<and> css_fraction (hBarThumb_width (syncScrollBars_frame example_layout example_container))
       = Some (Fin (1 / 4))
   \<and> track_visible (vBarOverlay_display (syncScrollBars_frame example_layout example_container))
   \<and> css_fraction (vBarThumb_height (syncScrollBars_frame example_layout example_container))
       = Some (Fin (1 / 4))"
  using sync_track_and_thumb_size [of example_layout example_container]
  by (simp add: example_container_flags example_layout_dom scroller_def)

text \<open>
  The instance above is the first scenario of the specification: client 100 and scroll
  400 give a visible track and a thumb of a quarter. The second: client 200 and scroll
  200 give a hidden track and a thumb of full length.
\<close>

lemma scenario_fitting_content:
  "\<not> track_visible (hBarOverlay_display (syncScrollBars_frame fitting_layout example_container))
   \<and> css_fraction (hBarThumb_width (syncScrollBars_frame fitting_layout example_container))
       = Some (Fin 1)"
  by (simp add: frame_horizontal_fields example_container_flags fitting_layout_def
      scroller_def effective_extent_def js_or_def track_visible_def)

text \<open>
  C2, as the code has it. After a synchronisation pass, for every enabled axis, the
  thumb's position is the fraction scroll offset over scroll extent of the track, where
  a scroll extent of zero is replaced by -0.000001. The divisor is the scroll extent,
  not the scrollable range.
\<close>

theorem sync_thumb_position:
  "(priv_horizontal s \<longrightarrow>
      css_fraction (hBarThumb_left (syncScrollBars_frame lay s))
        = Some (Fin (scrollLeft (sc_dom lay) / effective_extent (scrollWidth (sc_dom lay)))))
   \<and> (priv_vertical s \<longrightarrow>
      css_fraction (vBarThumb_top (syncScrollBars_frame lay s))
        = Some (Fin (scrollTop (sc_dom lay) / effective_extent (scrollHeight (sc_dom lay)))))"
  by (simp add: frame_horizontal_fields frame_vertical_fields)

theorem sync_thumb_position_witness:
  "css_fraction (hBarThumb_left (syncScrollBars_frame example_layout example_container))
     = Some (Fin (150 / 400))
   \<and> css_fraction (vBarThumb_top (syncScrollBars_frame example_layout example_container))
     = Some (Fin (150 / 400))"
  using sync_thumb_position [of example_container example_layout]
  by (simp add: example_container_flags example_layout_dom scroller_def effective_extent_def
      js_or_def)

text \<open>
  C2 as stated fails: with client extent 100, scroll extent 400 and scroll offset 150,
  the thumb's position fraction after the pass is 0.375, not 150 / (400 - 100) = 0.5.
\<close>

theorem sync_thumb_position_counterexample:
  "priv_horizontal example_container
   \<and> clientWidth (sc_dom example_layout) = 100
   \<and> scrollWidth (sc_dom example_layout) = 400
   \<and> scrollLeft (sc_dom example_layout) = 150
   \<and> css_fraction (hBarThumb_left (syncScrollBars_frame example_layout example_container))
       = Some (Fin (3 / 8))
   \<and> css_fraction (hBarThumb_left (syncScrollBars_frame example_layout example_container))
       \<noteq> Some (Fin (150 / (400 - 100)))
   \<and> css_fraction (hBarThumb_left (syncScrollBars_frame example_layout example_container))
       \<noteq> Some (Fin (1 / 2))"
  by (simp add: frame_horizontal_fields example_container_flags example_layout_dom scroller_def
      effective_extent_def js_or_def)

text \<open>
  C10. When the scroll extent of an enabled axis is zero (and the client extent is not
  negative), the pass divides by -0.000001 instead: the thumb's size and position are
  finite percentages, the track is hidden and the axis is marked as off.
\<close>

theorem sync_zero_scroll_extent:
  assumes "0 \<le> clientWidth (sc_dom lay)" and "0 \<le> clientHeight (sc_dom lay)"
  shows "(priv_horizontal s \<and> scrollWidth (sc_dom lay) = 0 \<longrightarrow>
            effective_extent (scrollWidth (sc_dom lay)) = - (1 / 1000000)
          \<and> \<not> track_visible (hBarOverlay_display (syncScrollBars_frame lay s))
          \<and> ''h-off'' \<in> classes (syncScrollBars_frame lay s)
          \<and> hBarThumb_width (syncScrollBars_frame lay s) = Percent (Fin 100)
          \<and> hBarThumb_left (syncScrollBars_frame lay s)
              = Percent (Fin (scrollLeft (sc_dom lay) / - (1 / 1000000) * 100))
          \<and> finite_percentage (hBarThumb_width (syncScrollBars_frame lay s))
          \<and> finite_percentage (hBarThumb_left (syncScrollBars_frame lay s)))
       \<and> (priv_vertical s \<and> scrollHeight (sc_dom lay) = 0 \<longrightarrow>
            effective_extent (scrollHeight (sc_dom lay)) = - (1 / 1000000)
          \<and> \<not> track_visible (vBarOverlay_display (syncScrollBars_frame lay s))
          \<and> ''v-off'' \<in> classes (syncScrollBars_frame lay s)
          \<and> vBarThumb_height (syncScrollBars_frame lay s) = Percent (Fin 100)
          \<and> vBarThumb_top (syncScrollBars_frame lay s)
              = Percent (Fin (scrollTop (sc_dom lay) / - (1 / 1000000) * 100))
          \<and> finite_percentage (vBarThumb_height (syncScrollBars_frame lay s))
          \<and> finite_percentage (vBarThumb_top (syncScrollBars_frame lay s)))"
proof -
  have z: "effective_extent 0 = - (1 / 1000000)"
    by (simp add: effective_extent_def js_or_def)
  show ?thesis
    using assms
    by (auto simp: frame_horizontal_fields frame_vertical_fields track_visible_def z)
qed

theorem sync_zero_scroll_extent_witness:
  "\<not> track_visible (hBarOverlay_display (syncScrollBars_frame empty_layout example_container))
   \<and> ''h-off'' \<in> classes (syncScrollBars_frame empty_layout example_container)
   \<and> hBarThumb_width (syncScrollBars_frame empty_layout example_container) = Percent (Fin 100)
   \<and> hBarThumb_left (syncScrollBars_frame empty_layout example_container) = Percent (Fin 0)
   \<and> \<not> track_visible (vBarOverlay_display (syncScrollBars_frame empty_layout example_container))
   \<and> vBarThumb_top (syncScrollBars_frame empty_layout example_container) = Percent (Fin 0)"
  using sync_zero_scroll_extent [of empty_layout example_container]
  by (simp add: example_container_flags empty_layout_def scroller_def)

text \<open>
  The ratios of a pass are finite whatever the layout is.
\<close>

lemma sync_ratios_finite:
  "priv_horizontal s \<Longrightarrow>
     finite_percentage (hBarThumb_width (syncScrollBars_frame lay s))
     \<and> finite_percentage (hBarThumb_left (syncScrollBars_frame lay s))"
  "priv_vertical s \<Longrightarrow>
     finite_percentage (vBarThumb_height (syncScrollBars_frame lay s))
     \<and> finite_percentage (vBarThumb_top (syncScrollBars_frame lay s))"
  by (simp_all add: frame_horizontal_fields frame_vertical_fields)

text \<open>
  C6, as the code has it. While a drag is in progress \<open>syncScrollBars\<close> requests no
  animation frame at all: apart from the class \<open>scrolling\<close>, which a scroll event still
  adds, the call changes nothing, for either axis and for the visibility of the tracks.
\<close>

theorem sync_suppressed_while_dragging:
  "dragging s \<Longrightarrow>
     syncScrollBars event s = (if event then addClass ''scrolling'' s else s)
     \<and> animationFrames (syncScrollBars event s) = animationFrames s
     \<and> animationFrame lay (syncScrollBars False s) = animationFrame lay s"
  by (simp add: syncScrollBars_def addClass_def)

theorem sync_suppressed_while_dragging_witness:
  "dragging example_dragging
   \<and> syncScrollBars True example_dragging = addClass ''scrolling'' example_dragging
   \<and> syncScrollBars False example_dragging = example_dragging"
  using sync_suppressed_while_dragging [of example_dragging True shrunk_layout]
    sync_suppressed_while_dragging [of example_dragging False shrunk_layout]
  by (simp add: example_dragging_flags)

text \<open>
  C6 as stated fails. The horizontal thumb is being dragged when the content shrinks to
  the height of the container. After \<open>syncScrollBars\<close> and the next animation frame the
  vertical track is still shown; outside a drag the same call and frame hide it.
\<close>

theorem sync_while_dragging_counterexample:
  "dragging example_dragging
   \<and> draggingThumb example_dragging = Some HBarThumb
   \<and> priv_vertical example_dragging
   \<and> \<not> clientHeight (sc_dom shrunk_layout) < scrollHeight (sc_dom shrunk_layout)
   \<and> track_visible (vBarOverlay_display
        (animationFrame shrunk_layout (syncScrollBars False example_dragging)))
   \<and> \<not> track_visible (vBarOverlay_display
        (animationFrame shrunk_layout (syncScrollBars False (example_dragging\<lparr>dragging := False\<rparr>))))"
  by (simp add: example_dragging_flags syncScrollBars_def animationFrame_def
      requestAnimationFrame_def frame_vertical_fields track_visible_def shrunk_layout_def
      example_layout_dom scroller_def effective_extent_def js_or_def)

section \<open>Properties of a drag\<close>

lemma onDragThumbPointerDown_session:
  assumes "target event = HBarThumb \<or> target event = VBarThumb"
  shows "dragStart (onDragThumbPointerDown lay event s)
           = \<lparr>pt_x = Fin (clientX event), pt_y = Fin (clientY event)\<rparr>"
    and "dragStartElementPos (onDragThumbPointerDown lay event s)
           = \<lparr>pt_x = Fin (scrollLeft (sc_dom lay)), pt_y = Fin (scrollTop (sc_dom lay))\<rparr>"
    and "draggingThumbRect (onDragThumbPointerDown lay event s)
           = thumb_rectangle (element_of lay (target event))"
    and "rect_width (draggingBarRect (onDragThumbPointerDown lay event s))
           = offsetWidth (parentElement lay (target event))"
    and "rect_height (draggingBarRect (onDragThumbPointerDown lay event s))
           = offsetHeight (parentElement lay (target event))"
  using assms
  by (auto simp: onDragThumbPointerDown_def Let_def addClass_def domCall_def thumb_rectangle_def
      new_DOMRect_def)

lemma drag_move_horizontal:
  assumes "draggingThumb s = Some HBarThumb"
    and "pt_x (dragStart s) = Fin x0" and "pt_x (dragStartElementPos s) = Fin sx"
    and "rect_width (draggingBarRect s) \<noteq> rect_width (draggingThumbRect s)"
  shows "calls (onDragThumbPointerMove lay event s) =
           calls s @ [ScrollTo \<lparr>opt_left = Some (Fin (sx + (clientX event - x0)
                         * ((scrollWidth (sc_dom lay) - offsetWidth (sc_dom lay))
                            / (rect_width (draggingBarRect s) - rect_width (draggingThumbRect s))))),
                       opt_top = None, opt_behavior = None\<rparr>]"
    and "hBarThumb_left (onDragThumbPointerMove lay event s) =
           Px (Fin (min (max 0 (rect_left (draggingThumbRect s) + (clientX event - x0)))
                        (rect_width (draggingBarRect s) - rect_width (draggingThumbRect s))))"
  using assms
  by (simp_all add: onDragThumbPointerMove_def Let_def js_sub_def domCall_def)

lemma drag_move_vertical:
  assumes "draggingThumb s = Some VBarThumb"
    and "pt_y (dragStart s) = Fin y0" and "pt_y (dragStartElementPos s) = Fin sy"
    and "rect_height (draggingBarRect s) \<noteq> rect_height (draggingThumbRect s)"
  shows "calls (onDragThumbPointerMove lay event s) =
           calls s @ [ScrollTo \<lparr>opt_left = None,
                       opt_top = Some (Fin (sy + (clientY event - y0)
                         * ((scrollHeight (sc_dom lay) - offsetHeight (sc_dom lay))
                            / (rect_height (draggingBarRect s) - rect_height (draggingThumbRect s))))),
                       opt_behavior = None\<rparr>]"
    and "vBarThumb_top (onDragThumbPointerMove lay event s) =
           Px (Fin (min (max 0 (rect_top (draggingThumbRect s) + (clientY event - y0)))
                        (rect_height (draggingBarRect s) - rect_height (draggingThumbRect s))))"
  using assms
  by (simp_all add: onDragThumbPointerMove_def Let_def js_sub_def domCall_def)


lemma scale_to_range:
  fixes D E L d :: real
  assumes "D \<noteq> 0" and "L + d = D"
  shows "L * (E / D) + d * (E / D) = E"
proof -
  have "L * (E / D) + d * (E / D) = (L + d) * (E / D)"
    by (simp only: distrib_right)
  also have "\<dots> = E"
    using assms by simp
  finally show ?thesis .
qed

text \<open>
  Where the container has no border, so that its offset extent is its client extent,
  the factor of the handler is the scrollable range over the draggable range. If the
  drag then began with the scroll offset at that factor times the thumb's leading edge,
  moving the thumb to the end of its track asks for the whole scrollable range.
\<close>

lemma drag_to_end_without_border:
  assumes "draggingThumb s = Some HBarThumb"
    and "pt_x (dragStart s) = Fin x0" and "pt_x (dragStartElementPos s) = Fin sx"
    and "rect_width (draggingBarRect s) \<noteq> rect_width (draggingThumbRect s)"
    and "offsetWidth (sc_dom lay) = clientWidth (sc_dom lay)"
    and "sx = rect_left (draggingThumbRect s)
              * ((scrollWidth (sc_dom lay) - clientWidth (sc_dom lay))
                 / (rect_width (draggingBarRect s) - rect_width (draggingThumbRect s)))"
    and "rect_left (draggingThumbRect s) + (clientX event - x0)
           = rect_width (draggingBarRect s) - rect_width (draggingThumbRect s)"
  shows "calls (onDragThumbPointerMove lay event s) =
           calls s @ [ScrollTo
             \<lparr>opt_left = Some (Fin (scrollWidth (sc_dom lay) - clientWidth (sc_dom lay))),
              opt_top = None, opt_behavior = None\<rparr>]"
proof -
  have "sx + (clientX event - x0)
          * ((scrollWidth (sc_dom lay) - clientWidth (sc_dom lay))
             / (rect_width (draggingBarRect s) - rect_width (draggingThumbRect s)))
        = scrollWidth (sc_dom lay) - clientWidth (sc_dom lay)"
    unfolding assms(6) using assms(4) assms(7) by (intro scale_to_range) auto
  then show ?thesis
    using drag_move_horizontal(1) [OF assms(1-4), of lay event] assms(5) by simp
qed

lemma thumb_press_fields:
  "target thumb_press = HBarThumb" "clientX thumb_press = 50"
  by (simp_all add: thumb_press_def)

lemma thumb_rectangle_box:
  "rect_width (thumb_rectangle (box l t w h)) = w"
  "rect_height (thumb_rectangle (box l t w h)) = h"
  "0 \<le> w \<Longrightarrow> rect_left (thumb_rectangle (box l t w h)) = l"
  "0 \<le> h \<Longrightarrow> rect_top (thumb_rectangle (box l t w h)) = t"
  by (simp_all add: thumb_rectangle_def new_DOMRect_def box_def rect_left_def rect_top_def)

lemma aligned_dragging_fields:
  "draggingThumb aligned_dragging = Some HBarThumb"
  "pt_x (dragStart aligned_dragging) = Fin 50"
  "pt_x (dragStartElementPos aligned_dragging) = Fin 152"
  "draggingThumbRect aligned_dragging = thumb_rectangle (box 38 0 25 9)"
  "rect_width (draggingBarRect aligned_dragging) = 100"
  by (simp_all add: aligned_dragging_def onDragThumbPointerDown_thumb
      onDragThumbPointerDown_session thumb_press_fields aligned_layout_def example_layout_def
      scroller_def box_def)

lemma aligned_dom:
  "scrollWidth (sc_dom aligned_layout) = 400" "offsetWidth (sc_dom aligned_layout) = 100"
  "clientWidth (sc_dom aligned_layout) = 100"
  by (simp_all add: aligned_layout_def scroller_def)

lemma drag_to_end_without_border_example:
  "calls (onDragThumbPointerMove aligned_layout (thumb_press\<lparr>clientX := 87\<rparr>) aligned_dragging)
     = calls aligned_dragging
       @ [ScrollTo \<lparr>opt_left = Some (Fin 300), opt_top = None, opt_behavior = None\<rparr>]"
proof -
  have "calls (onDragThumbPointerMove aligned_layout (thumb_press\<lparr>clientX := 87\<rparr>) aligned_dragging)
     = calls aligned_dragging
       @ [ScrollTo \<lparr>opt_left = Some (Fin (scrollWidth (sc_dom aligned_layout)
                                              - clientWidth (sc_dom aligned_layout))),
                    opt_top = None, opt_behavior = None\<rparr>]"
    by (rule drag_to_end_without_border [where ?x0.0 = 50 and sx = 152])
       (simp_all add: aligned_dragging_fields aligned_dom thumb_rectangle_box)
  then show ?thesis
    by (simp add: aligned_dom)
qed

lemma bordered_dragging_fields:
  "draggingThumb bordered_dragging = Some HBarThumb"
  "pt_x (dragStart bordered_dragging) = Fin 50"
  "pt_x (dragStartElementPos bordered_dragging) = Fin 0"
  "draggingThumbRect bordered_dragging = thumb_rectangle (box 0 0 25 9)"
  "rect_width (draggingBarRect bordered_dragging) = 100"
  by (simp_all add: bordered_dragging_def onDragThumbPointerDown_thumb
      onDragThumbPointerDown_session thumb_press_fields bordered_layout_def example_layout_def
      scroller_def box_def)

text \<open>
  C3 fails for a container with a border. The container has a client extent of 100
  inside a border of 5 pixels, so an offset extent of 110, and a scroll extent of 400;
  it is not scrolled, and the thumb of 25 is at the start of its track of 100. The
  pointer moves by 75, which takes the thumb to the end of the track. The handler
  divides \<open>scrollWidth - offsetWidth\<close> = 290 where the area out of view is
  \<open>scrollWidth - clientWidth\<close> = 300, and asks for the scroll offset 290: with the thumb
  at the end of its track, 10 pixels of the content stay out of view.
\<close>

theorem drag_to_track_end_with_border:
  "clientWidth (sc_dom bordered_layout) = 100
   \<and> offsetWidth (sc_dom bordered_layout) = 110
   \<and> scrollWidth (sc_dom bordered_layout) = 400
   \<and> rect_width (draggingBarRect bordered_dragging) = 100
   \<and> rect_width (draggingThumbRect bordered_dragging) = 25
   \<and> rect_left (draggingThumbRect bordered_dragging) = 0
   \<and> pt_x (dragStartElementPos bordered_dragging) = Fin 0
   \<and> hBarThumb_left (onDragThumbPointerMove bordered_layout (thumb_press\<lparr>clientX := 125\<rparr>)
        bordered_dragging) = Px (Fin 75)
   \<and> calls (onDragThumbPointerMove bordered_layout (thumb_press\<lparr>clientX := 125\<rparr>) bordered_dragging)
       = calls bordered_dragging
         @ [ScrollTo \<lparr>opt_left = Some (Fin 290), opt_top = None, opt_behavior = None\<rparr>]"
  by (simp add: drag_move_horizontal [where ?x0.0 = 50 and sx = 0 and s = bordered_dragging]
      bordered_dragging_fields thumb_rectangle_box bordered_layout_def scroller_def)

section \<open>Properties of a press on a bar\<close>

lemma track_press_horizontal:
  assumes "target event = HBar"
  shows "contScrollBackwards (onScrollBarPointerDown lay event s)
           = (offsetX event \<le> offsetLeft (hBarThumb lay))"
    and "contScrollHorizontal (onScrollBarPointerDown lay event s)"
    and "isPointerDown (onScrollBarPointerDown lay event s)"
    and "contScrollStartPos (onScrollBarPointerDown lay event s)
           = \<lparr>pt_x = offsetX event, pt_y = offsetY event\<rparr>"
    and "scrollPageLength (onScrollBarPointerDown lay event s)
           = js_div (Fin (scrollWidth (sc_dom lay) * offsetWidth (hBarThumb lay)))
                    (Fin (offsetWidth (hBar lay)))"
    and "calls (onScrollBarPointerDown lay event s)
           = calls s @ [PreventDefault,
               ScrollBy \<lparr>opt_left = Some
                           (if offsetX event < offsetLeft (hBarThumb lay)
                            then js_neg (js_div (Fin (scrollWidth (sc_dom lay) * offsetWidth (hBarThumb lay)))
                                                (Fin (offsetWidth (hBar lay))))
                            else js_div (Fin (scrollWidth (sc_dom lay) * offsetWidth (hBarThumb lay)))
                                        (Fin (offsetWidth (hBar lay)))),
                         opt_top = None, opt_behavior = Some Smooth\<rparr>]"
  using assms
  by (simp_all add: onScrollBarPointerDown_def Let_def domCall_def)

lemma track_press_vertical:
  assumes "target event = VBar"
  shows "contScrollBackwards (onScrollBarPointerDown lay event s)
           = (offsetY event \<le> offsetTop (vBarThumb lay))"
    and "\<not> contScrollHorizontal (onScrollBarPointerDown lay event s)"
    and "isPointerDown (onScrollBarPointerDown lay event s)"
    and "contScrollStartPos (onScrollBarPointerDown lay event s)
           = \<lparr>pt_x = offsetX event, pt_y = offsetY event\<rparr>"
    and "scrollPageLength (onScrollBarPointerDown lay event s)
           = js_div (Fin (scrollHeight (sc_dom lay) * offsetHeight (vBarThumb lay)))
                    (Fin (offsetHeight (vBar lay)))"
    and "calls (onScrollBarPointerDown lay event s)
           = calls s @ [PreventDefault,
               ScrollBy \<lparr>opt_left = None,
                         opt_top = Some
                           (if offsetY event < offsetTop (vBarThumb lay)
                            then js_neg (js_div (Fin (scrollHeight (sc_dom lay) * offsetHeight (vBarThumb lay)))
                                                (Fin (offsetHeight (vBar lay))))
                            else js_div (Fin (scrollHeight (sc_dom lay) * offsetHeight (vBarThumb lay)))
                                        (Fin (offsetHeight (vBar lay)))),
                         opt_behavior = Some Smooth\<rparr>]"
  using assms
  by (simp_all add: onScrollBarPointerDown_def Let_def domCall_def)

text \<open>The page length is the scroll extent times the thumb's share of the track.\<close>

lemma page_length:
  "b \<noteq> 0 \<Longrightarrow> js_div (Fin (e * t)) (Fin b) = Fin (e * (t / b))"
  by simp

lemma rafScroll_released:
  "\<not> isPointerDown s \<Longrightarrow> rafScroll lay s = removeClass ''scrolling'' s"
  by (simp add: rafScroll_def)

lemma rafScroll_contained:
  "rectContains (thumbRect_of (pressed_thumb lay s)) (contScrollStartPos s) \<Longrightarrow>
     rafScroll lay s = removeClass ''scrolling'' s"
  by (cases "contScrollHorizontal s"; simp add: rafScroll_def pressed_thumb_def)

lemma js_div_neg: "js_div (js_neg a) (Fin 10) = js_neg (js_div a (Fin 10))"
  by (cases a) (simp_all add: inf_over_def)

lemma rafScroll_step:
  assumes "isPointerDown s"
    and "\<not> rectContains (thumbRect_of (pressed_thumb lay s)) (contScrollStartPos s)"
  shows "calls (rafScroll lay s) =
           calls s @ [ScrollBy
             \<lparr>opt_left = Some (if contScrollHorizontal s
                               then (if contScrollBackwards s
                                     then js_neg (js_div (scrollPageLength s) (Fin 10))
                                     else js_div (scrollPageLength s) (Fin 10))
                               else Fin 0),
              opt_top = Some (if contScrollHorizontal s then Fin 0
                              else (if contScrollBackwards s
                                    then js_neg (js_div (scrollPageLength s) (Fin 10))
                                    else js_div (scrollPageLength s) (Fin 10))),
              opt_behavior = Some Auto\<rparr>]"
    and "animationFrames (rafScroll lay s) = animationFrames s @ [RafScroll]"
  using assms
  by (cases "contScrollHorizontal s";
      simp add: rafScroll_def pressed_thumb_def Let_def domCall_def requestAnimationFrame_def
        js_div_neg)+

text \<open>
  Where the thumb's offsets and sizes are not negative, the rectangle that \<open>rafScroll\<close>
  tests contains the thumb's own rectangle.
\<close>

lemma thumbRect_of_contains:
  assumes "0 \<le> offsetLeft thumb" "0 \<le> offsetTop thumb"
    and "0 \<le> offsetWidth thumb" "0 \<le> offsetHeight thumb"
    and "rectContains (thumb_rectangle thumb) p"
  shows "rectContains (thumbRect_of thumb) p"
  using assms
  by (simp add: rectContains_def thumb_rectangle_def thumbRect_of_def new_DOMRect_def
      rect_left_def rect_right_def rect_top_def rect_bottom_def)

lemma rafScroll_stops:
  assumes "0 \<le> offsetLeft (pressed_thumb lay s)" "0 \<le> offsetTop (pressed_thumb lay s)"
    and "0 \<le> offsetWidth (pressed_thumb lay s)" "0 \<le> offsetHeight (pressed_thumb lay s)"
    and "\<not> isPointerDown s
         \<or> rectContains (thumb_rectangle (pressed_thumb lay s)) (contScrollStartPos s)"
  shows "calls (rafScroll lay s) = calls s"
    and "animationFrames (rafScroll lay s) = animationFrames s"
  using assms thumbRect_of_contains [of "pressed_thumb lay s" "contScrollStartPos s"]
  by (auto simp: rafScroll_released rafScroll_contained removeClass_def)

lemma edge_press_target: "target edge_press = HBar"
  by (simp add: edge_press_def)

lemma border_press_target: "target border_press = HBar"
  by (simp add: border_press_def)

lemma far_press_target: "target far_press = HBar"
  by (simp add: far_press_def)

lemma edge_pressed_fields:
  "contScrollBackwards edge_pressed" "contScrollHorizontal edge_pressed"
  "isPointerDown edge_pressed"
  "contScrollStartPos edge_pressed = \<lparr>pt_x = 38, pt_y = 4\<rparr>"
  "scrollPageLength edge_pressed = Fin 100"
  by (simp_all add: edge_pressed_def track_press_horizontal edge_press_target)
     (simp_all add: edge_press_def edge_layout_def example_layout_def box_def scroller_def)

text \<open>
  C4 fails where the press is exactly at the thumb's leading edge. The thumb's
  \<open>offsetLeft\<close> is 38 and the bar is pressed at 38. The page length is
  400 * 25 / 100 = 100 and the immediate smooth scroll is forward, by +100, as the claim
  says; but the direction the handler stores is backward, so that the first step of the
  continuous loop, once the thumb has moved on to 63, scrolls by -10.
\<close>

theorem press_on_leading_edge:
  "target edge_press = HBar
   \<and> offsetX edge_press = offsetLeft (hBarThumb edge_layout)
   \<and> contScrollBackwards edge_pressed
   \<and> scrollPageLength edge_pressed = Fin 100
   \<and> calls edge_pressed =
       calls (animationFrame edge_layout example_container)
       @ [PreventDefault,
          ScrollBy \<lparr>opt_left = Some (Fin 100), opt_top = None, opt_behavior = Some Smooth\<rparr>]
   \<and> calls (rafScroll scrolled_layout edge_pressed) =
       calls edge_pressed
       @ [ScrollBy \<lparr>opt_left = Some (Fin (- 10)), opt_top = Some (Fin 0),
                    opt_behavior = Some Auto\<rparr>]"
proof -
  have n: "\<not> rectContains (thumbRect_of (pressed_thumb scrolled_layout edge_pressed))
              (contScrollStartPos edge_pressed)"
    by (simp add: pressed_thumb_def edge_pressed_fields scrolled_layout_def box_def
        rectContains_def thumbRect_of_def new_DOMRect_def rect_left_def)
  have c: "calls edge_pressed =
       calls (animationFrame edge_layout example_container)
       @ [PreventDefault,
          ScrollBy \<lparr>opt_left = Some (Fin 100), opt_top = None, opt_behavior = Some Smooth\<rparr>]"
    by (simp add: edge_pressed_def track_press_horizontal edge_press_target)
       (simp add: edge_press_def edge_layout_def example_layout_def box_def scroller_def)
  show ?thesis
    by (simp add: c edge_pressed_fields edge_press_target rafScroll_step [OF _ n])
       (simp add: edge_press_def edge_layout_def example_layout_def box_def)
qed

lemma border_pressed_fields:
  "\<not> contScrollBackwards border_pressed" "contScrollHorizontal border_pressed"
  "isPointerDown border_pressed"
  "contScrollStartPos border_pressed = \<lparr>pt_x = 70, pt_y = 21 / 2\<rparr>"
  "scrollPageLength border_pressed = Fin 100"
  by (simp_all add: border_pressed_def track_press_horizontal border_press_target)
     (simp_all add: border_press_def hover_layout_def example_layout_def box_def scroller_def)

text \<open>
  C5 fails where a thumb offset is negative. The bar is hovered, so its thumb has
  \<open>offsetTop\<close> -1 and \<open>offsetHeight\<close> 12, and it was pressed at (70, 10.5), on its lower
  border. The pointer is still down and the thumb, now from 60 to 85 and from -1 to 11,
  contains the press point. \<open>rafScroll\<close> passes the thumb's right and bottom to
  \<open>DOMRect\<close> as width and height; the bottom of that rectangle is 10, the point is
  not in it, and the loop scrolls by +10 and requests its next frame.
\<close>

theorem step_although_thumb_contains_press:
  "isPointerDown border_pressed
   \<and> contScrollHorizontal border_pressed
   \<and> contScrollStartPos border_pressed = \<lparr>pt_x = 70, pt_y = 21 / 2\<rparr>
   \<and> hBarThumb covering_layout = box 60 (- 1) 25 12
   \<and> rectContains (thumb_rectangle (hBarThumb covering_layout)) (contScrollStartPos border_pressed)
   \<and> thumbRect_of (hBarThumb covering_layout) = new_DOMRect 60 (- 1) 85 11
   \<and> rect_bottom (thumbRect_of (hBarThumb covering_layout)) = 10
   \<and> calls (rafScroll covering_layout border_pressed) =
       calls border_pressed
       @ [ScrollBy \<lparr>opt_left = Some (Fin 10), opt_top = Some (Fin 0), opt_behavior = Some Auto\<rparr>]
   \<and> animationFrames (rafScroll covering_layout border_pressed) =
       animationFrames border_pressed @ [RafScroll]"
proof -
  have t: "hBarThumb covering_layout = box 60 (- 1) 25 12"
    by (simp add: covering_layout_def)
  have n: "\<not> rectContains (thumbRect_of (pressed_thumb covering_layout border_pressed))
              (contScrollStartPos border_pressed)"
    by (simp add: pressed_thumb_def border_pressed_fields t box_def
        rectContains_def thumbRect_of_def new_DOMRect_def rect_bottom_def)
  show ?thesis
    by (simp add: border_pressed_fields rafScroll_step [OF _ n] t)
       (simp add: box_def rectContains_def thumb_rectangle_def thumbRect_of_def new_DOMRect_def
        rect_left_def rect_right_def rect_top_def rect_bottom_def)
qed

text \<open>
  The same rectangle more often stops the loop too early: pressed at 80, right of a thumb
  that spans 38 to 63, \<open>rafScroll\<close> takes no step, since the rectangle it tests
  reaches to 101.
\<close>

lemma far_pressed_fields:
  "isPointerDown far_pressed" "contScrollHorizontal far_pressed"
  "contScrollStartPos far_pressed = \<lparr>pt_x = 80, pt_y = 4\<rparr>"
  by (simp_all add: far_pressed_def track_press_horizontal far_press_target)
     (simp_all add: far_press_def)

lemma no_step_although_thumb_is_short_of_press:
  "isPointerDown far_pressed
   \<and> \<not> rectContains (thumb_rectangle (hBarThumb example_layout)) (contScrollStartPos far_pressed)
   \<and> rafScroll example_layout far_pressed = removeClass ''scrolling'' far_pressed"
proof -
  have c: "rectContains (thumbRect_of (pressed_thumb example_layout far_pressed))
              (contScrollStartPos far_pressed)"
    by (simp add: pressed_thumb_def far_pressed_fields example_layout_def box_def
        rectContains_def thumbRect_of_def new_DOMRect_def
        rect_left_def rect_right_def rect_top_def rect_bottom_def)
  show ?thesis
    by (simp add: far_pressed_fields rafScroll_contained [OF c])
       (simp add: example_layout_def box_def rectContains_def thumb_rectangle_def new_DOMRect_def
        rect_left_def rect_right_def rect_top_def rect_bottom_def)
qed

section \<open>Properties of the child operations\<close>

text \<open>
  Seven of the eight operations forward the call to the content container and then
  call \<open>syncScrollBars\<close> once: outside a drag, the log grows by that one call and the
  queue by one synchronisation.
\<close>

lemma forwarded_then_synced:
  "\<not> dragging s \<Longrightarrow>
     syncScrollBars False (domCall (ContentContainer op) s) =
       s\<lparr>calls := calls s @ [ContentContainer op],
         animationFrames := animationFrames s @ [SyncFrame]\<rparr>"
  by (simp add: syncScrollBars_def domCall_def requestAnimationFrame_def)

lemma child_operations_forward:
  assumes "\<not> dragging s"
  shows "append_sc cs s =
           s\<lparr>calls := calls s @ [ContentContainer (Append cs)],
             animationFrames := animationFrames s @ [SyncFrame]\<rparr>"
    and "appendFragment fr s =
           s\<lparr>calls := calls s @ [ContentContainer (AppendFragment fr)],
             animationFrames := animationFrames s @ [SyncFrame]\<rparr>"
    and "insert_sc pos cs s =
           s\<lparr>calls := calls s @ [ContentContainer (Insert pos cs)],
             animationFrames := animationFrames s @ [SyncFrame]\<rparr>"
    and "remove cs s =
           s\<lparr>calls := calls s @ [ContentContainer (Remove cs)],
             animationFrames := animationFrames s @ [SyncFrame]\<rparr>"
    and "extract_sc to cs s =
           s\<lparr>calls := calls s @ [ContentContainer (Extract to cs)],
             animationFrames := animationFrames s @ [SyncFrame]\<rparr>"
    and "moveTo tc cs s =
           s\<lparr>calls := calls s @ [ContentContainer (MoveTo tc cs)],
             animationFrames := animationFrames s @ [SyncFrame]\<rparr>"
    and "moveToAt tc pos cs s =
           s\<lparr>calls := calls s @ [ContentContainer (MoveToAt tc pos cs)],
             animationFrames := animationFrames s @ [SyncFrame]\<rparr>"
  using assms
  by (simp_all add: append_sc_def appendFragment_def insert_sc_def remove_def extract_sc_def
      moveTo_def moveToAt_def forwarded_then_synced)

lemma insertFragment_no_result: "insertFragment pos fragment s \<noteq> Some s'"
proof
  assume r: "insertFragment pos fragment s = Some s'"
  show False
  proof (rule insertFragment.raw_induct [where P = "\<lambda>pos fragment s s'. False", OF _ r])
    fix f :: "Position \<Rightarrow> nat \<Rightarrow> ScrollContainer \<Rightarrow> ScrollContainer option"
      and pos fragment s y
    assume ih: "\<And>pos fragment s y. f pos fragment s = Some y \<Longrightarrow> False"
      and "Option.bind (f pos fragment s) (\<lambda>s'. Some (syncScrollBars False s')) = Some y"
    then obtain z where "f pos fragment s = Some z"
      by (auto simp: bind_eq_Some_conv)
    with ih show False by blast
  qed
qed

text \<open>
  C9 fails for \<open>insertFragment\<close>: the method calls itself instead of the content
  container, so no call of it returns, whatever the position, the fragment and the
  state are; nothing is forwarded and no synchronisation is requested.
\<close>

theorem insertFragment_never_returns: "insertFragment pos fragment s = None"
  using insertFragment_no_result [of pos fragment s]
  by (cases "insertFragment pos fragment s") auto

section \<open>Properties of the adjustments\<close>

lemma unobserve_source_eq:
  "unobserve_source v s =
     s\<lparr>adjustmentObserved := adjustmentObserved s - set (source_elements v),
       calls := calls s @ map AdjustmentUnobserve (source_elements v)\<rparr>"
  by (cases v) (simp_all add: unobserve_def domCall_def)

lemma unobserve_previous_eq:
  "unobserve_previous old s =
     s\<lparr>adjustmentObserved := adjustmentObserved s - set (adjustment_sources old),
       calls := calls s @ map AdjustmentUnobserve (adjustment_sources old)\<rparr>"
proof (cases old)
  case None
  then show ?thesis by simp
next
  case (Some a)
  have "adjustmentObserved s - set (source_elements (Offset a)) - set (source_elements (ReduceSize a))
        = adjustmentObserved s - (set (source_elements (Offset a)) \<union> set (source_elements (ReduceSize a)))"
    by auto
  with Some show ?thesis by (simp add: unobserve_source_eq)
qed

text \<open>The value stored for a source at set-time, by the property read from an element.\<close>

lemma store_hBarLeftOffset_eq:
  "store_hBarLeftOffset lay v s =
     s\<lparr>hBarLeftOffset := (case v of Number n \<Rightarrow> n | Component c \<Rightarrow> offsetTop (component lay c)),
       adjustmentObserved := set (source_elements v) \<union> adjustmentObserved s,
       calls := calls s @ map AdjustmentObserve (source_elements v)\<rparr>"
  by (cases v) (simp_all add: observe_def domCall_def)

lemma store_hBarReduceWidth_eq:
  "store_hBarReduceWidth lay v s =
     s\<lparr>hBarReduceWidth := (case v of Number n \<Rightarrow> n | Component c \<Rightarrow> offsetHeight (component lay c)),
       adjustmentObserved := set (source_elements v) \<union> adjustmentObserved s,
       calls := calls s @ map AdjustmentObserve (source_elements v)\<rparr>"
  by (cases v) (simp_all add: observe_def domCall_def)

lemma store_vBarTopOffset_eq:
  "store_vBarTopOffset lay v s =
     s\<lparr>vBarTopOffset := (case v of Number n \<Rightarrow> n | Component c \<Rightarrow> offsetTop (component lay c)),
       adjustmentObserved := set (source_elements v) \<union> adjustmentObserved s,
       calls := calls s @ map AdjustmentObserve (source_elements v)\<rparr>"
  by (cases v) (simp_all add: observe_def domCall_def)

lemma store_vBarReduceHeight_eq:
  "store_vBarReduceHeight lay v s =
     s\<lparr>vBarReduceHeight := (case v of Number n \<Rightarrow> n | Component c \<Rightarrow> offsetHeight (component lay c)),
       adjustmentObserved := set (source_elements v) \<union> adjustmentObserved s,
       calls := calls s @ map AdjustmentObserve (source_elements v)\<rparr>"
  by (cases v) (simp_all add: observe_def domCall_def)

lemma horizontalAdjustment_eq:
  "horizontalAdjustment lay a s =
     syncScrollBars False
       (s\<lparr>hAdjustment := Some (adjustment_or_default a),
          hBarLeftOffset := (case Offset (adjustment_or_default a) of
                               Number n \<Rightarrow> n | Component c \<Rightarrow> offsetTop (component lay c)),
          hBarReduceWidth := (case ReduceSize (adjustment_or_default a) of
                                Number n \<Rightarrow> n | Component c \<Rightarrow> offsetHeight (component lay c)),
          adjustmentObserved :=
            (adjustmentObserved s - set (adjustment_sources (hAdjustment s)))
            \<union> set (adjustment_sources (Some (adjustment_or_default a))),
          calls := calls s @ map AdjustmentUnobserve (adjustment_sources (hAdjustment s))
                   @ map AdjustmentObserve (adjustment_sources (Some (adjustment_or_default a)))\<rparr>)"
proof -
  have u: "\<And>A B C::nat set. B \<union> (A \<union> C) = C \<union> (A \<union> B)"
    by auto
  show ?thesis
    by (simp add: horizontalAdjustment_def Let_def unobserve_previous_eq store_hBarLeftOffset_eq
        store_hBarReduceWidth_eq u Un_commute)
qed

lemma verticalAdjustment_eq:
  "verticalAdjustment lay a s =
     syncScrollBars False
       (s\<lparr>vAdjustment := Some (adjustment_or_default a),
          vBarTopOffset := (case Offset (adjustment_or_default a) of
                              Number n \<Rightarrow> n | Component c \<Rightarrow> offsetTop (component lay c)),
          vBarReduceHeight := (case ReduceSize (adjustment_or_default a) of
                                 Number n \<Rightarrow> n | Component c \<Rightarrow> offsetHeight (component lay c)),
          adjustmentObserved :=
            (adjustmentObserved s - set (adjustment_sources (vAdjustment s)))
            \<union> set (adjustment_sources (Some (adjustment_or_default a))),
          calls := calls s @ map AdjustmentUnobserve (adjustment_sources (vAdjustment s))
                   @ map AdjustmentObserve (adjustment_sources (Some (adjustment_or_default a)))\<rparr>)"
proof -
  have u: "\<And>A B C::nat set. B \<union> (A \<union> C) = C \<union> (A \<union> B)"
    by auto
  show ?thesis
    by (simp add: verticalAdjustment_def Let_def unobserve_previous_eq store_vBarTopOffset_eq
        store_vBarReduceHeight_eq u Un_commute)
qed

lemma source_elements_iff: "(c \<in> set (source_elements v)) = (Component c = v)"
  by (cases v) auto

lemma adjustment_sources_iff:
  "(c \<in> set (adjustment_sources (Some a))) = (Component c = Offset a \<or> Component c = ReduceSize a)"
  by (simp add: source_elements_iff)

lemma adjustment_entry_eq:
  assumes "hAdjustment s = Some ha" and "vAdjustment s = Some va"
  shows "adjustment_entry lay ref s =
     Inr ((if ref \<in> set (adjustment_sources (Some ha)) \<union> set (adjustment_sources (Some va))
           then syncScrollBars False else id)
          (s\<lparr>hBarLeftOffset := (if Component ref = Offset ha
                                 then offsetLeft (component lay ref) else hBarLeftOffset s),
             hBarReduceWidth := (if Component ref = ReduceSize ha
                                  then offsetWidth (component lay ref) else hBarReduceWidth s),
             vBarTopOffset := (if Component ref = Offset va
                                then offsetTop (component lay ref) else vBarTopOffset s),
             vBarReduceHeight := (if Component ref = ReduceSize va
                                   then offsetHeight (component lay ref) else vBarReduceHeight s)\<rparr>))"
  using assms
  by (simp add: adjustment_entry_def refresh_if_def Let_def source_elements_iff)


lemma syncScrollBars_keeps:
  "hAdjustment (syncScrollBars ev s) = hAdjustment s"
  "vAdjustment (syncScrollBars ev s) = vAdjustment s"
  "dragging (syncScrollBars ev s) = dragging s"
  "adjustmentObserved (syncScrollBars ev s) = adjustmentObserved s"
  "calls (syncScrollBars ev s) = calls s"
  "hBarLeftOffset (syncScrollBars ev s) = hBarLeftOffset s"
  "hBarReduceWidth (syncScrollBars ev s) = hBarReduceWidth s"
  "vBarTopOffset (syncScrollBars ev s) = vBarTopOffset s"
  "vBarReduceHeight (syncScrollBars ev s) = vBarReduceHeight s"
  "resizeObserved (syncScrollBars ev s) = resizeObserved s"
  "priv_horizontal (syncScrollBars ev s) = priv_horizontal s"
  "priv_vertical (syncScrollBars ev s) = priv_vertical s"
  by (simp_all add: syncScrollBars_def addClass_def requestAnimationFrame_def Let_def)

lemma syncScrollBars_requests:
  "animationFrames (syncScrollBars False s) =
     animationFrames s @ (if dragging s then [] else [SyncFrame])"
  by (simp add: syncScrollBars_def requestAnimationFrame_def)

lemma horizontalAdjustment_fields:
  "hAdjustment (horizontalAdjustment lay a s) = Some (adjustment_or_default a)"
  "vAdjustment (horizontalAdjustment lay a s) = vAdjustment s"
  "dragging (horizontalAdjustment lay a s) = dragging s"
  "adjustmentObserved (horizontalAdjustment lay a s) =
     (adjustmentObserved s - set (adjustment_sources (hAdjustment s)))
     \<union> set (adjustment_sources (Some (adjustment_or_default a)))"
  "calls (horizontalAdjustment lay a s) =
     calls s @ map AdjustmentUnobserve (adjustment_sources (hAdjustment s))
     @ map AdjustmentObserve (adjustment_sources (Some (adjustment_or_default a)))"
  "hBarLeftOffset (horizontalAdjustment lay a s) =
     (case Offset (adjustment_or_default a) of
        Number n \<Rightarrow> n | Component c \<Rightarrow> offsetTop (component lay c))"
  "hBarReduceWidth (horizontalAdjustment lay a s) =
     (case ReduceSize (adjustment_or_default a) of
        Number n \<Rightarrow> n | Component c \<Rightarrow> offsetHeight (component lay c))"
  "resizeObserved (horizontalAdjustment lay a s) = resizeObserved s"
  "priv_horizontal (horizontalAdjustment lay a s) = priv_horizontal s"
  "priv_vertical (horizontalAdjustment lay a s) = priv_vertical s"
  by (simp_all add: horizontalAdjustment_eq syncScrollBars_keeps)

lemma verticalAdjustment_fields:
  "vAdjustment (verticalAdjustment lay a s) = Some (adjustment_or_default a)"
  "hAdjustment (verticalAdjustment lay a s) = hAdjustment s"
  "dragging (verticalAdjustment lay a s) = dragging s"
  "adjustmentObserved (verticalAdjustment lay a s) =
     (adjustmentObserved s - set (adjustment_sources (vAdjustment s)))
     \<union> set (adjustment_sources (Some (adjustment_or_default a)))"
  "calls (verticalAdjustment lay a s) =
     calls s @ map AdjustmentUnobserve (adjustment_sources (vAdjustment s))
     @ map AdjustmentObserve (adjustment_sources (Some (adjustment_or_default a)))"
  "vBarTopOffset (verticalAdjustment lay a s) =
     (case Offset (adjustment_or_default a) of
        Number n \<Rightarrow> n | Component c \<Rightarrow> offsetTop (component lay c))"
  "vBarReduceHeight (verticalAdjustment lay a s) =
     (case ReduceSize (adjustment_or_default a) of
        Number n \<Rightarrow> n | Component c \<Rightarrow> offsetHeight (component lay c))"
  "resizeObserved (verticalAdjustment lay a s) = resizeObserved s"
  "priv_horizontal (verticalAdjustment lay a s) = priv_horizontal s"
  "priv_vertical (verticalAdjustment lay a s) = priv_vertical s"
  by (simp_all add: verticalAdjustment_eq syncScrollBars_keeps)

text \<open>
  What a resize of an element reaches: the callback of \<open>resizeObserver\<close>, which calls
  \<open>syncScrollBars\<close> for a watched child of the content container, and then, for an
  element the adjustment observer observes, the callback of that observer.
\<close>

lemma resizeObserver_single:
  "resizeObserver_callback lay [ElementOf e] s =
     (if (priv_vertical s \<or> priv_horizontal s) \<and> e \<in> content_children lay
      then syncScrollBars False s else s)"
  by (simp add: resizeObserver_callback_def)

lemma element_resized_unobserved:
  "e \<notin> adjustmentObserved s \<Longrightarrow>
     element_resized lay e s = Inr (if content_sync lay e s then syncScrollBars False s else s)"
  by (simp add: element_resized_def content_sync_def resizeObserver_single syncScrollBars_keeps
      Let_def)

lemma element_resized_observed:
  "e \<in> adjustmentObserved s \<Longrightarrow>
     element_resized lay e s =
       adjustment_entry lay e (if content_sync lay e s then syncScrollBars False s else s)"
  by (cases "adjustment_entry lay e s"; cases "adjustment_entry lay e (syncScrollBars False s)")
     (simp_all add: element_resized_def content_sync_def resizeObserver_single
      syncScrollBars_keeps Let_def)

text \<open>
  A resize of an observed source is answered by one call of \<open>syncScrollBars\<close> from the
  adjustment observer, after the one from \<open>resizeObserver\<close> if there is one; during a
  drag neither call requests a frame.
\<close>

lemma element_resized_source:
  assumes "hAdjustment s = Some ha" and "vAdjustment s = Some va"
    and "e \<in> adjustmentObserved s"
    and "e \<in> set (adjustment_sources (Some ha)) \<union> set (adjustment_sources (Some va))"
  shows "map_sum id animationFrames (element_resized lay e s) =
           Inr (animationFrames s
                @ (if dragging s then []
                   else if content_sync lay e s then [SyncFrame, SyncFrame] else [SyncFrame]))"
proof (cases "content_sync lay e s")
  case True
  have "hAdjustment (syncScrollBars False s) = Some ha" "vAdjustment (syncScrollBars False s) = Some va"
    using assms by (simp_all add: syncScrollBars_keeps)
  then show ?thesis
    using assms True
    by (simp add: element_resized_observed adjustment_entry_eq syncScrollBars_requests
        syncScrollBars_keeps)
next
  case False
  then show ?thesis
    using assms
    by (simp add: element_resized_observed adjustment_entry_eq syncScrollBars_requests)
qed

lemma replaced_horizontal:
  "calls (horizontalAdjustment lay a s) =
     calls s @ map AdjustmentUnobserve (adjustment_sources (hAdjustment s))
     @ map AdjustmentObserve (adjustment_sources (Some (adjustment_or_default a)))"
  "old \<in> set (adjustment_sources (hAdjustment s)) \<Longrightarrow>
   old \<notin> set (adjustment_sources (Some (adjustment_or_default a))) \<Longrightarrow>
     element_resized lay' old (horizontalAdjustment lay a s) =
       Inr (if content_sync lay' old (horizontalAdjustment lay a s)
            then syncScrollBars False (horizontalAdjustment lay a s)
            else horizontalAdjustment lay a s)"
  "new \<in> set (adjustment_sources (Some (adjustment_or_default a))) \<Longrightarrow>
   vAdjustment s = Some va \<Longrightarrow>
     map_sum id animationFrames (element_resized lay' new (horizontalAdjustment lay a s))
       = Inr (animationFrames (horizontalAdjustment lay a s)
              @ (if dragging s then []
                 else if content_sync lay' new (horizontalAdjustment lay a s)
                      then [SyncFrame, SyncFrame] else [SyncFrame]))"
proof -
  show "calls (horizontalAdjustment lay a s) =
     calls s @ map AdjustmentUnobserve (adjustment_sources (hAdjustment s))
     @ map AdjustmentObserve (adjustment_sources (Some (adjustment_or_default a)))"
    by (rule horizontalAdjustment_fields)
next
  assume "old \<in> set (adjustment_sources (hAdjustment s))"
    and "old \<notin> set (adjustment_sources (Some (adjustment_or_default a)))"
  then have "old \<notin> adjustmentObserved (horizontalAdjustment lay a s)"
    unfolding horizontalAdjustment_fields by blast
  then show "element_resized lay' old (horizontalAdjustment lay a s) =
       Inr (if content_sync lay' old (horizontalAdjustment lay a s)
            then syncScrollBars False (horizontalAdjustment lay a s)
            else horizontalAdjustment lay a s)"
    by (rule element_resized_unobserved)
next
  assume n: "new \<in> set (adjustment_sources (Some (adjustment_or_default a)))"
    and v: "vAdjustment s = Some va"
  have o: "new \<in> adjustmentObserved (horizontalAdjustment lay a s)"
    unfolding horizontalAdjustment_fields using n by blast
  have "map_sum id animationFrames (element_resized lay' new (horizontalAdjustment lay a s))
       = Inr (animationFrames (horizontalAdjustment lay a s)
              @ (if dragging (horizontalAdjustment lay a s) then []
                 else if content_sync lay' new (horizontalAdjustment lay a s)
                      then [SyncFrame, SyncFrame] else [SyncFrame]))"
  proof (rule element_resized_source [where ha = "adjustment_or_default a" and va = va])
    show "hAdjustment (horizontalAdjustment lay a s) = Some (adjustment_or_default a)"
      by (rule horizontalAdjustment_fields)
    show "vAdjustment (horizontalAdjustment lay a s) = Some va"
      using v by (simp add: horizontalAdjustment_fields)
    show "new \<in> adjustmentObserved (horizontalAdjustment lay a s)" by (rule o)
    show "new \<in> set (adjustment_sources (Some (adjustment_or_default a)))
               \<union> set (adjustment_sources (Some va))"
      using n by blast
  qed
  then show "map_sum id animationFrames (element_resized lay' new (horizontalAdjustment lay a s))
       = Inr (animationFrames (horizontalAdjustment lay a s)
              @ (if dragging s then []
                 else if content_sync lay' new (horizontalAdjustment lay a s)
                      then [SyncFrame, SyncFrame] else [SyncFrame]))"
    by (simp add: horizontalAdjustment_fields)
qed

lemma replaced_vertical:
  "calls (verticalAdjustment lay a s) =
     calls s @ map AdjustmentUnobserve (adjustment_sources (vAdjustment s))
     @ map AdjustmentObserve (adjustment_sources (Some (adjustment_or_default a)))"
  "old \<in> set (adjustment_sources (vAdjustment s)) \<Longrightarrow>
   old \<notin> set (adjustment_sources (Some (adjustment_or_default a))) \<Longrightarrow>
     element_resized lay' old (verticalAdjustment lay a s) =
       Inr (if content_sync lay' old (verticalAdjustment lay a s)
            then syncScrollBars False (verticalAdjustment lay a s)
            else verticalAdjustment lay a s)"
  "new \<in> set (adjustment_sources (Some (adjustment_or_default a))) \<Longrightarrow>
   hAdjustment s = Some ha \<Longrightarrow>
     map_sum id animationFrames (element_resized lay' new (verticalAdjustment lay a s))
       = Inr (animationFrames (verticalAdjustment lay a s)
              @ (if dragging s then []
                 else if content_sync lay' new (verticalAdjustment lay a s)
                      then [SyncFrame, SyncFrame] else [SyncFrame]))"
proof -
  show "calls (verticalAdjustment lay a s) =
     calls s @ map AdjustmentUnobserve (adjustment_sources (vAdjustment s))
     @ map AdjustmentObserve (adjustment_sources (Some (adjustment_or_default a)))"
    by (rule verticalAdjustment_fields)
next
  assume "old \<in> set (adjustment_sources (vAdjustment s))"
    and "old \<notin> set (adjustment_sources (Some (adjustment_or_default a)))"
  then have "old \<notin> adjustmentObserved (verticalAdjustment lay a s)"
    unfolding verticalAdjustment_fields by blast
  then show "element_resized lay' old (verticalAdjustment lay a s) =
       Inr (if content_sync lay' old (verticalAdjustment lay a s)
            then syncScrollBars False (verticalAdjustment lay a s)
            else verticalAdjustment lay a s)"
    by (rule element_resized_unobserved)
next
  assume n: "new \<in> set (adjustment_sources (Some (adjustment_or_default a)))"
    and h: "hAdjustment s = Some ha"
  have o: "new \<in> adjustmentObserved (verticalAdjustment lay a s)"
    unfolding verticalAdjustment_fields using n by blast
  have "map_sum id animationFrames (element_resized lay' new (verticalAdjustment lay a s))
       = Inr (animationFrames (verticalAdjustment lay a s)
              @ (if dragging (verticalAdjustment lay a s) then []
                 else if content_sync lay' new (verticalAdjustment lay a s)
                      then [SyncFrame, SyncFrame] else [SyncFrame]))"
  proof (rule element_resized_source [where va = "adjustment_or_default a" and ha = ha])
    show "vAdjustment (verticalAdjustment lay a s) = Some (adjustment_or_default a)"
      by (rule verticalAdjustment_fields)
    show "hAdjustment (verticalAdjustment lay a s) = Some ha"
      using h by (simp add: verticalAdjustment_fields)
    show "new \<in> adjustmentObserved (verticalAdjustment lay a s)" by (rule o)
    show "new \<in> set (adjustment_sources (Some ha))
               \<union> set (adjustment_sources (Some (adjustment_or_default a)))"
      using n by blast
  qed
  then show "map_sum id animationFrames (element_resized lay' new (verticalAdjustment lay a s))
       = Inr (animationFrames (verticalAdjustment lay a s)
              @ (if dragging s then []
                 else if content_sync lay' new (verticalAdjustment lay a s)
                      then [SyncFrame, SyncFrame] else [SyncFrame]))"
    by (simp add: verticalAdjustment_fields)
qed

text \<open>
  C7, as the code has it. When the adjustment of an axis is replaced, the adjustment
  observer is asked to unobserve the elements the previous adjustment was derived from
  before it is asked to observe those of the new one. Afterwards a resize of a previous
  element that is not a source of the new adjustment no longer reaches the adjustment
  observer: nothing happens, unless \<open>resizeObserver\<close> watches the element as a child of
  the content container and calls \<open>syncScrollBars\<close> itself. A resize of a new element
  makes the adjustment observer call \<open>syncScrollBars\<close> once; outside a drag this requests
  one synchronisation, two with the one of \<open>resizeObserver\<close> for a watched child of the
  content container, and during a drag none.
\<close>

theorem adjustment_replacement:
  "calls (horizontalAdjustment lay a s) =
     calls s @ map AdjustmentUnobserve (adjustment_sources (hAdjustment s))
     @ map AdjustmentObserve (adjustment_sources (Some (adjustment_or_default a)))
   \<and> (old \<in> set (adjustment_sources (hAdjustment s))
        \<and> old \<notin> set (adjustment_sources (Some (adjustment_or_default a))) \<longrightarrow>
      element_resized lay' old (horizontalAdjustment lay a s) =
        Inr (if content_sync lay' old (horizontalAdjustment lay a s)
             then syncScrollBars False (horizontalAdjustment lay a s)
             else horizontalAdjustment lay a s))
   \<and> (new \<in> set (adjustment_sources (Some (adjustment_or_default a)))
        \<and> vAdjustment s \<noteq> None \<longrightarrow>
      map_sum id animationFrames (element_resized lay' new (horizontalAdjustment lay a s))
        = Inr (animationFrames (horizontalAdjustment lay a s)
               @ (if dragging s then []
                  else if content_sync lay' new (horizontalAdjustment lay a s)
                       then [SyncFrame, SyncFrame] else [SyncFrame])))
   \<and> calls (verticalAdjustment lay a s) =
     calls s @ map AdjustmentUnobserve (adjustment_sources (vAdjustment s))
     @ map AdjustmentObserve (adjustment_sources (Some (adjustment_or_default a)))
   \<and> (old \<in> set (adjustment_sources (vAdjustment s))
        \<and> old \<notin> set (adjustment_sources (Some (adjustment_or_default a))) \<longrightarrow>
      element_resized lay' old (verticalAdjustment lay a s) =
        Inr (if content_sync lay' old (verticalAdjustment lay a s)
             then syncScrollBars False (verticalAdjustment lay a s)
             else verticalAdjustment lay a s))
   \<and> (new \<in> set (adjustment_sources (Some (adjustment_or_default a)))
        \<and> hAdjustment s \<noteq> None \<longrightarrow>
      map_sum id animationFrames (element_resized lay' new (verticalAdjustment lay a s))
        = Inr (animationFrames (verticalAdjustment lay a s)
               @ (if dragging s then []
                  else if content_sync lay' new (verticalAdjustment lay a s)
                       then [SyncFrame, SyncFrame] else [SyncFrame])))"
proof -
  have h: "new \<in> set (adjustment_sources (Some (adjustment_or_default a)))
        \<and> vAdjustment s \<noteq> None \<longrightarrow>
      map_sum id animationFrames (element_resized lay' new (horizontalAdjustment lay a s))
        = Inr (animationFrames (horizontalAdjustment lay a s)
               @ (if dragging s then []
                  else if content_sync lay' new (horizontalAdjustment lay a s)
                       then [SyncFrame, SyncFrame] else [SyncFrame]))"
  proof (intro impI; elim conjE)
    assume n: "new \<in> set (adjustment_sources (Some (adjustment_or_default a)))"
      and "vAdjustment s \<noteq> None"
    then obtain va where "vAdjustment s = Some va"
      by blast
    with n show "map_sum id animationFrames (element_resized lay' new (horizontalAdjustment lay a s))
        = Inr (animationFrames (horizontalAdjustment lay a s)
               @ (if dragging s then []
                  else if content_sync lay' new (horizontalAdjustment lay a s)
                       then [SyncFrame, SyncFrame] else [SyncFrame]))"
      by (rule replaced_horizontal(3))
  qed
  have v: "new \<in> set (adjustment_sources (Some (adjustment_or_default a)))
        \<and> hAdjustment s \<noteq> None \<longrightarrow>
      map_sum id animationFrames (element_resized lay' new (verticalAdjustment lay a s))
        = Inr (animationFrames (verticalAdjustment lay a s)
               @ (if dragging s then []
                  else if content_sync lay' new (verticalAdjustment lay a s)
                       then [SyncFrame, SyncFrame] else [SyncFrame]))"
  proof (intro impI; elim conjE)
    assume n: "new \<in> set (adjustment_sources (Some (adjustment_or_default a)))"
      and "hAdjustment s \<noteq> None"
    then obtain ha where "hAdjustment s = Some ha"
      by blast
    with n show "map_sum id animationFrames (element_resized lay' new (verticalAdjustment lay a s))
        = Inr (animationFrames (verticalAdjustment lay a s)
               @ (if dragging s then []
                  else if content_sync lay' new (verticalAdjustment lay a s)
                       then [SyncFrame, SyncFrame] else [SyncFrame]))"
      by (rule replaced_vertical(3))
  qed
  have ho: "old \<in> set (adjustment_sources (hAdjustment s))
        \<and> old \<notin> set (adjustment_sources (Some (adjustment_or_default a))) \<longrightarrow>
      element_resized lay' old (horizontalAdjustment lay a s) =
        Inr (if content_sync lay' old (horizontalAdjustment lay a s)
             then syncScrollBars False (horizontalAdjustment lay a s)
             else horizontalAdjustment lay a s)"
    by (intro impI; elim conjE) (rule replaced_horizontal(2))
  have vo: "old \<in> set (adjustment_sources (vAdjustment s))
        \<and> old \<notin> set (adjustment_sources (Some (adjustment_or_default a))) \<longrightarrow>
      element_resized lay' old (verticalAdjustment lay a s) =
        Inr (if content_sync lay' old (verticalAdjustment lay a s)
             then syncScrollBars False (verticalAdjustment lay a s)
             else verticalAdjustment lay a s)"
    by (intro impI; elim conjE) (rule replaced_vertical(2))
  show ?thesis
    by (intro conjI h v ho vo replaced_horizontal(1) replaced_vertical(1))
qed

lemma both_adjusted_fields:
  "hAdjustment both_adjusted = Some toolbar_adjustment"
  "vAdjustment both_adjusted = Some toolbar_adjustment"
  "\<not> dragging both_adjusted"
  "resizeObserved both_adjusted = {OwnElement}"
  by (simp_all add: both_adjusted_def toolbar_adjusted_def verticalAdjustment_fields
      horizontalAdjustment_fields example_container_flags)
     (simp add: example_container_def new_ScrollContainer_default initialized_def)

theorem adjustment_replacement_witness:
  "element_resized example_layout 1 (horizontalAdjustment example_layout (Some sidebar_adjustment) both_adjusted)
     = Inr (horizontalAdjustment example_layout (Some sidebar_adjustment) both_adjusted)
   \<and> map_sum id animationFrames
        (element_resized example_layout 2 (horizontalAdjustment example_layout (Some sidebar_adjustment) both_adjusted))
     = Inr (animationFrames (horizontalAdjustment example_layout (Some sidebar_adjustment) both_adjusted) @ [SyncFrame])
   \<and> calls (horizontalAdjustment example_layout (Some sidebar_adjustment) both_adjusted)
     = calls both_adjusted @ [AdjustmentUnobserve 1, AdjustmentUnobserve 1, AdjustmentObserve 2]
   \<and> element_resized example_layout 1 (verticalAdjustment example_layout (Some sidebar_adjustment) both_adjusted)
     = Inr (verticalAdjustment example_layout (Some sidebar_adjustment) both_adjusted)
   \<and> map_sum id animationFrames
        (element_resized example_layout 2 (verticalAdjustment example_layout (Some sidebar_adjustment) both_adjusted))
     = Inr (animationFrames (verticalAdjustment example_layout (Some sidebar_adjustment) both_adjusted) @ [SyncFrame])
   \<and> calls (verticalAdjustment example_layout (Some sidebar_adjustment) both_adjusted)
     = calls both_adjusted @ [AdjustmentUnobserve 1, AdjustmentUnobserve 1, AdjustmentObserve 2]"
  using adjustment_replacement [of example_layout "Some sidebar_adjustment" both_adjusted 1
      example_layout 2]
  by (simp add: both_adjusted_fields toolbar_adjustment_def sidebar_adjustment_def
      content_sync_def horizontalAdjustment_fields verticalAdjustment_fields)

lemma with_children_fields:
  "hAdjustment with_children = Some \<lparr>Offset = Number 0, ReduceSize = Number 0\<rparr>"
  "vAdjustment with_children = Some \<lparr>Offset = Number 0, ReduceSize = Number 0\<rparr>"
  "\<not> dragging with_children"
  "priv_horizontal with_children"
  "adjustmentObserved with_children = {}"
  "resizeObserved with_children = {OwnElement, ElementOf 1, ElementOf 2}"
  by (auto simp: with_children_def append_sc_def syncScrollBars_def domCall_def
      requestAnimationFrame_def example_container_def new_ScrollContainer_default
      initialized_def)

lemma replaced_in_content_fields:
  "hAdjustment replaced_in_content = Some sidebar_adjustment"
  "vAdjustment replaced_in_content = Some \<lparr>Offset = Number 0, ReduceSize = Number 0\<rparr>"
  "\<not> dragging replaced_in_content"
  "priv_horizontal replaced_in_content"
  "adjustmentObserved replaced_in_content = {2}"
  "resizeObserved replaced_in_content = {OwnElement, ElementOf 1, ElementOf 2}"
  by (auto simp: replaced_in_content_def horizontalAdjustment_fields with_children_fields
      toolbar_adjustment_def sidebar_adjustment_def)

lemma onDragThumbPointerDown_keeps:
  "hAdjustment (onDragThumbPointerDown lay event s) = hAdjustment s"
  "vAdjustment (onDragThumbPointerDown lay event s) = vAdjustment s"
  "adjustmentObserved (onDragThumbPointerDown lay event s) = adjustmentObserved s"
  "resizeObserved (onDragThumbPointerDown lay event s) = resizeObserved s"
  by (simp_all add: onDragThumbPointerDown_def Let_def addClass_def domCall_def)

lemma replaced_dragging_fields:
  "hAdjustment replaced_dragging = Some sidebar_adjustment"
  "vAdjustment replaced_dragging = Some \<lparr>Offset = Number 0, ReduceSize = Number 0\<rparr>"
  "dragging replaced_dragging"
  "adjustmentObserved replaced_dragging = {2}"
  by (simp_all add: replaced_dragging_def onDragThumbPointerDown_keeps
      onDragThumbPointerDown_thumb thumb_press_target replaced_in_content_fields)

text \<open>
  C7 as stated fails. Components 1 and 2 are children of the content container, as a
  sticky toolbar is, and the horizontal adjustment derived from component 1 has been
  replaced by one derived from component 2. A resize of component 1, which the
  adjustment observer no longer observes, still requests a synchronisation, through
  \<open>resizeObserver\<close>; a resize of component 2 requests two; and once a thumb is being
  dragged, a resize of component 2 requests none.
\<close>

theorem adjustment_replacement_counterexample:
  "1 \<in> set (adjustment_sources (Some toolbar_adjustment))
   \<and> 1 \<notin> adjustmentObserved replaced_in_content
   \<and> 2 \<in> adjustmentObserved replaced_in_content
   \<and> \<not> dragging replaced_in_content
   \<and> map_sum id animationFrames (element_resized children_layout 1 replaced_in_content)
       = Inr (animationFrames replaced_in_content @ [SyncFrame])
   \<and> map_sum id animationFrames (element_resized children_layout 2 replaced_in_content)
       = Inr (animationFrames replaced_in_content @ [SyncFrame, SyncFrame])
   \<and> dragging replaced_dragging
   \<and> 2 \<in> adjustmentObserved replaced_dragging
   \<and> map_sum id animationFrames (element_resized children_layout 2 replaced_dragging)
       = Inr (animationFrames replaced_dragging)"
proof -
  have c: "content_sync children_layout 1 replaced_in_content"
    "content_sync children_layout 2 replaced_in_content"
    by (simp_all add: content_sync_def replaced_in_content_fields children_layout_def)
  have o: "map_sum id animationFrames (element_resized children_layout 1 replaced_in_content)
       = Inr (animationFrames replaced_in_content @ [SyncFrame])"
    using c(1)
    by (simp add: element_resized_unobserved replaced_in_content_fields
        syncScrollBars_requests)
  have n: "map_sum id animationFrames (element_resized children_layout 2 replaced_in_content)
       = Inr (animationFrames replaced_in_content @ [SyncFrame, SyncFrame])"
    using element_resized_source [where s = replaced_in_content and e = 2
        and lay = children_layout and ha = sidebar_adjustment
        and va = "\<lparr>Offset = Number 0, ReduceSize = Number 0\<rparr>"] c(2)
    by (simp add: replaced_in_content_fields sidebar_adjustment_def)
  have d: "map_sum id animationFrames (element_resized children_layout 2 replaced_dragging)
       = Inr (animationFrames replaced_dragging)"
    using element_resized_source [where s = replaced_dragging and e = 2
        and lay = children_layout and ha = sidebar_adjustment
        and va = "\<lparr>Offset = Number 0, ReduceSize = Number 0\<rparr>"]
    by (simp add: replaced_dragging_fields sidebar_adjustment_def)
  show ?thesis
    using o n d
    by (simp add: replaced_in_content_fields replaced_dragging_fields toolbar_adjustment_def)
qed

text \<open>
  The values stored at set-time and at a resize, for any component: the vertical
  adjustment reads \<open>offsetTop\<close> and \<open>offsetHeight\<close> both times, the horizontal one
  reads \<open>offsetTop\<close> and \<open>offsetHeight\<close> at set-time and \<open>offsetLeft\<close> and
  \<open>offsetWidth\<close> at a resize.
\<close>

lemma set_time_values:
  "hBarLeftOffset (horizontalAdjustment lay (Some \<lparr>Offset = Component c, ReduceSize = Component d\<rparr>) s)
     = offsetTop (component lay c)"
  "hBarReduceWidth (horizontalAdjustment lay (Some \<lparr>Offset = Component c, ReduceSize = Component d\<rparr>) s)
     = offsetHeight (component lay d)"
  "vBarTopOffset (verticalAdjustment lay (Some \<lparr>Offset = Component c, ReduceSize = Component d\<rparr>) s)
     = offsetTop (component lay c)"
  "vBarReduceHeight (verticalAdjustment lay (Some \<lparr>Offset = Component c, ReduceSize = Component d\<rparr>) s)
     = offsetHeight (component lay d)"
  by (simp_all add: horizontalAdjustment_fields verticalAdjustment_fields)

lemma resize_time_values:
  assumes "hAdjustment s = Some ha" and "vAdjustment s = Some va" and "e \<in> adjustmentObserved s"
  shows "Offset ha = Component e \<Longrightarrow>
           map_sum id hBarLeftOffset (element_resized lay e s) = Inr (offsetLeft (component lay e))"
    and "ReduceSize ha = Component e \<Longrightarrow>
           map_sum id hBarReduceWidth (element_resized lay e s) = Inr (offsetWidth (component lay e))"
    and "Offset va = Component e \<Longrightarrow>
           map_sum id vBarTopOffset (element_resized lay e s) = Inr (offsetTop (component lay e))"
    and "ReduceSize va = Component e \<Longrightarrow>
           map_sum id vBarReduceHeight (element_resized lay e s) = Inr (offsetHeight (component lay e))"
  using assms
  by (cases "content_sync lay e s";
      simp add: element_resized_observed adjustment_entry_eq syncScrollBars_keeps)+

lemma toolbar_component: "component example_layout c = box 10 20 30 40"
  by (simp add: example_layout_def)

lemma toolbar_adjusted_fields:
  "hAdjustment toolbar_adjusted = Some toolbar_adjustment"
  "vAdjustment toolbar_adjusted = Some \<lparr>Offset = Number 0, ReduceSize = Number 0\<rparr>"
  "adjustmentObserved toolbar_adjusted = {1}"
  by (simp_all add: toolbar_adjusted_def horizontalAdjustment_fields toolbar_adjustment_def
      example_container_def new_ScrollContainer_default initialized_def)

text \<open>
  C8 fails for the horizontal axis. The toolbar lies at \<open>offsetLeft\<close> 10 and
  \<open>offsetTop\<close> 20 and is 30 wide and 40 high. \<open>horizontalAdjustment\<close> stores its
  \<open>offsetTop\<close> and \<open>offsetHeight\<close>, 20 and 40; the next resize of the toolbar stores
  its \<open>offsetLeft\<close> and \<open>offsetWidth\<close>, 10 and 30.
\<close>

theorem horizontal_set_time_derivation:
  "offsetLeft (component example_layout 1) = 10
   \<and> offsetTop (component example_layout 1) = 20
   \<and> offsetWidth (component example_layout 1) = 30
   \<and> offsetHeight (component example_layout 1) = 40
   \<and> hBarLeftOffset toolbar_adjusted = 20
   \<and> hBarReduceWidth toolbar_adjusted = 40
   \<and> map_sum id hBarLeftOffset (element_resized example_layout 1 toolbar_adjusted) = Inr 10
   \<and> map_sum id hBarReduceWidth (element_resized example_layout 1 toolbar_adjusted) = Inr 30"
proof -
  have c: "\<not> content_sync example_layout 1 toolbar_adjusted"
    by (simp add: content_sync_def example_layout_def)
  show ?thesis
    by (simp add: toolbar_component box_def element_resized_observed c toolbar_adjusted_fields
        adjustment_entry_eq [where ha = toolbar_adjustment
          and va = "\<lparr>Offset = Number 0, ReduceSize = Number 0\<rparr>"]
        syncScrollBars_keeps)
       (simp add: toolbar_adjusted_def horizontalAdjustment_fields toolbar_adjustment_def
        toolbar_component box_def)
qed


end
